theory Spec2Isabelle
  imports Main "HOL-Library.Word"
begin

section \<open>Errors\<close>

text \<open>
  A Go \<^verbatim>\<open>error\<close> is modelled by the two things the code reads from it: its text
  (\<^verbatim>\<open>err.Error()\<close>) and the API status reason that \<^verbatim>\<open>k8serrors.IsNotFound\<close> looks
  for. A possibly-nil error is an \<open>error option\<close>, \<open>None\<close> being \<^verbatim>\<open>nil\<close>.
\<close>

datatype StatusReason = StatusReasonNotFound | StatusReasonConflict | StatusReasonUnknown

record error =
  Msg :: string
  Status_reason :: StatusReason

definition err_Error :: "error \<Rightarrow> string" where
  "err_Error e = Msg e"

definition errors_New :: "string \<Rightarrow> error" where
  "errors_New m = \<lparr>Msg = m, Status_reason = StatusReasonUnknown\<rparr>"

text \<open>\<^verbatim>\<open>errors.Wrap(err, msg)\<close> is nil for a nil error; otherwise it prefixes the text and
  keeps the wrapped error reachable, so the status reason is still found.\<close>

definition errors_Wrap :: "error option \<Rightarrow> string \<Rightarrow> error option" where
  "errors_Wrap err m =
     (case err of None \<Rightarrow> None
      | Some e \<Rightarrow> Some (e\<lparr>Msg := m @ '': '' @ err_Error e\<rparr>))"


definition IsNotFound :: "error option \<Rightarrow> bool" where
  "IsNotFound err =
     (case err of None \<Rightarrow> False | Some e \<Rightarrow> Status_reason e = StatusReasonNotFound)"

section \<open>Strings\<close>

fun strings_HasPrefix :: "string \<Rightarrow> string \<Rightarrow> bool" where
  "strings_HasPrefix s [] = True"
| "strings_HasPrefix [] (p # ps) = False"
| "strings_HasPrefix (c # s) (p # ps) = (c = p \<and> strings_HasPrefix s ps)"

text \<open>\<^verbatim>\<open>strings.Index\<close>: the position of the first occurrence, \<open>None\<close> for Go's -1.\<close>

fun strings_Index :: "string \<Rightarrow> string \<Rightarrow> nat option" where
  "strings_Index [] substr = (if substr = [] then Some 0 else None)"
| "strings_Index (c # s) substr =
     (if strings_HasPrefix (c # s) substr then Some 0
      else map_option Suc (strings_Index s substr))"

definition strings_Contains :: "string \<Rightarrow> string \<Rightarrow> bool" where
  "strings_Contains s substr = (strings_Index s substr \<noteq> None)"

text \<open>
  \<^verbatim>\<open>strings.Split(s, sep)\<close> for a non-empty separator: the loop of \<^verbatim>\<open>genSplit\<close>, which cuts
  at each occurrence of the separator and ends with the rest of the string. (With an empty
  separator Go splits into characters; no caller here passes one.)
\<close>

function strings_Split :: "string \<Rightarrow> string \<Rightarrow> string list" where
  "strings_Split s sep =
     (if sep = [] then map (\<lambda>c. [c]) s
      else (case strings_Index s sep of
              None \<Rightarrow> [s]
            | Some m \<Rightarrow> take m s # strings_Split (drop (m + length sep) s) sep))"
  by pat_completeness auto
termination
proof (relation "measure (\<lambda>(s, sep). length s)")
  show "wf (measure (\<lambda>(s, sep). length s))" by simp
next
  fix s sep :: string and m :: nat
  assume sep: "sep \<noteq> []" and idx: "strings_Index s sep = Some m"
  from sep idx have "s \<noteq> []" by (cases s) auto
  with sep show "((drop (m + length sep) s, sep), (s, sep)) \<in> measure (\<lambda>(s, sep). length s)"
    by simp
qed

declare strings_Split.simps [simp del]

text \<open>Indexing a Go slice panics out of range; \<open>Panics\<close> is that outcome.\<close>

datatype 'a go = Panics | Returns 'a

section \<open>The agent status adapter (package pbm)\<close>

record PITRChunk =
  Range_Start :: "64 word"
  Range_End :: "64 word"

record Running =
  OpID :: string
  Running_Status :: string
  StartTS :: "64 word"
  Running_Name :: string
  Running_Type :: string

text \<open>The fields of \<^verbatim>\<open>pbm.Status\<close> that the helper queries read.\<close>

record PBMStatus =
  PITRChunks_Chunks :: "PITRChunk list"
  PITR_Conf :: bool
  PITR_Run :: bool
  PITR_Error :: string
  Status_Running :: Running

definition IsNotConfigured :: "error \<Rightarrow> bool" where
  "IsNotConfigured err = strings_Contains (err_Error err) ''mongo: no documents in result''"

text \<open>
  \<^verbatim>\<open>GetStatus\<close> executes a command in the agent's container and decodes its output; its
  result, a status and a possibly-nil error, is the argument of the helpers below.
\<close>

definition HasRunningOperation :: "PBMStatus \<times> error option \<Rightarrow> bool \<times> error option" where
  "HasRunningOperation gs =
     (case gs of (status, err) \<Rightarrow>
        (case err of
           Some e \<Rightarrow> if IsNotConfigured e then (False, None) else (False, Some e)
         | None \<Rightarrow> (Running_Status (Status_Running status) \<noteq> [], None)))"

definition IsPITRRunning :: "PBMStatus \<times> error option \<Rightarrow> bool \<times> error option" where
  "IsPITRRunning gs =
     (case gs of (status, err) \<Rightarrow>
        (case err of
           Some e \<Rightarrow> (False, Some e)
         | None \<Rightarrow> (PITR_Run status \<or> PITR_Conf status, None)))"

section \<open>The restore controller's data\<close>

text \<open>
  Modelled from the spec: the type declarations of package \<^verbatim>\<open>psmdbv1\<close>
  (\<^verbatim>\<open>PerconaServerMongoDBRestore\<close>, \<^verbatim>\<open>PerconaServerMongoDBBackup\<close>, \<^verbatim>\<open>PerconaServerMongoDB\<close>,
  \<^verbatim>\<open>BackupStorageSpec\<close>), which the controller imports: ``state \<open>\<in>\<close> {New, Error, Ready,
  ... intermediate}'', ``lifecycle state \<open>\<in>\<close> {New, Requested, Running, Error, Ready}'',
  ``a tagged union {S3 | Azure | Filesystem}, each carrying the fields needed to address
  that backend plus a credential reference''. The records carry the fields that the
  controller reads and writes, under the names it uses.
\<close>

datatype RestoreState =
  RestoreStateNew | RestoreStateReady | RestoreStateError | RestoreStateIntermediate string

datatype BackupState =
  BackupStateNew | BackupStateRequested | BackupStateRunning | BackupStateError | BackupStateReady

type_synonym BackupType = string



record BackupStorageS3Spec =
  S3_Bucket :: string
  S3_Prefix :: string
  S3_CredentialsSecret :: string

record BackupStorageAzureSpec =
  Azure_Container :: string
  Azure_Prefix :: string
  Azure_CredentialsSecret :: string

record BackupStorageFilesystemSpec =
  Filesystem_Path :: string

definition zero_S3 :: BackupStorageS3Spec where
  "zero_S3 = \<lparr>S3_Bucket = [], S3_Prefix = [], S3_CredentialsSecret = []\<rparr>"

definition zero_Azure :: BackupStorageAzureSpec where
  "zero_Azure = \<lparr>Azure_Container = [], Azure_Prefix = [], Azure_CredentialsSecret = []\<rparr>"

definition zero_Filesystem :: BackupStorageFilesystemSpec where
  "zero_Filesystem = \<lparr>Filesystem_Path = []\<rparr>"

type_synonym BackupStorageType = string

definition storage_S3 :: BackupStorageType where
  "storage_S3 = ''s3''"

definition storage_Azure :: BackupStorageType where
  "storage_Azure = ''azure''"

definition storage_Filesystem :: BackupStorageType where
  "storage_Filesystem = ''filesystem''"

record BackupStorageSpec =
  Storage_Type :: BackupStorageType
  Storage_S3 :: BackupStorageS3Spec
  Storage_Azure :: BackupStorageAzureSpec
  Storage_Filesystem :: BackupStorageFilesystemSpec

definition zero_BackupStorageSpec :: BackupStorageSpec where
  "zero_BackupStorageSpec =
     \<lparr>Storage_Type = [], Storage_S3 = zero_S3, Storage_Azure = zero_Azure,
      Storage_Filesystem = zero_Filesystem\<rparr>"

text \<open>A pointer field is an \<open>option\<close>: \<open>None\<close> is \<^verbatim>\<open>nil\<close>.\<close>

record PerconaServerMongoDBBackupSpec =
  Backup_ClusterName :: string
  Backup_StorageName :: string

record PerconaServerMongoDBBackupStatus =
  Backup_Type :: BackupType
  Backup_State :: BackupState
  Destination :: string
  Status_StorageName :: string
  S3 :: "BackupStorageS3Spec option"
  Azure :: "BackupStorageAzureSpec option"
  Filesystem :: "BackupStorageFilesystemSpec option"
  PBMName :: string

record PerconaServerMongoDBBackup =
  Backup_Name :: string
  Backup_Namespace :: string
  Backup_Spec :: PerconaServerMongoDBBackupSpec
  Backup_Status :: PerconaServerMongoDBBackupStatus

definition zero_Backup :: PerconaServerMongoDBBackup where
  "zero_Backup =
     \<lparr>Backup_Name = [], Backup_Namespace = [],
      Backup_Spec = \<lparr>Backup_ClusterName = [], Backup_StorageName = []\<rparr>,
      Backup_Status = \<lparr>Backup_Type = [], Backup_State = BackupStateNew, Destination = [],
        Status_StorageName = [], S3 = None, Azure = None, Filesystem = None, PBMName = []\<rparr>\<rparr>"

datatype ConditionStatus = ConditionTrue | ConditionFalse | ConditionUnknown

text \<open>A time is \<open>None\<close> for Go's zero time.\<close>

type_synonym Time = "int option"

record Condition =
  Cond_Type :: string
  Cond_Status :: ConditionStatus
  ObservedGeneration :: int
  LastTransitionTime :: Time
  Cond_Reason :: string
  Cond_Message :: string

text \<open>\<open>Status_rest\<close> stands for the status fields the tick copies and never inspects.\<close>

record PerconaServerMongoDBRestoreStatus =
  State :: RestoreState
  Error :: string
  Conditions :: "Condition list"
  Status_rest :: string

record PerconaServerMongoDBRestoreSpec =
  ClusterName :: string
  BackupName :: string
  StorageName :: string
  BackupSource :: "PerconaServerMongoDBBackupStatus option"

record PerconaServerMongoDBRestore =
  Name :: string
  Namespace :: string
  Spec :: PerconaServerMongoDBRestoreSpec
  Status :: PerconaServerMongoDBRestoreStatus

text \<open>A \<^verbatim>\<open>float64\<close> is only carried along: a mantissa and an exponent.\<close>

datatype float64 = Float64 int int

record PITRSpec =
  PITR_Enabled :: bool
  PITR_OplogSpanMin :: float64
  PITR_OplogOnly :: bool
  PITR_CompressionType :: string
  PITR_CompressionLevel :: "int option"

record PerconaServerMongoDB =
  Cluster_Name :: string
  Cluster_Namespace :: string
  Replsets :: "string list"
  Storages :: "string \<rightharpoonup> BackupStorageSpec"
  PITR :: PITRSpec
  Status_BackupStorage :: string

text \<open>\<^verbatim>\<open>types.NamespacedName\<close>.\<close>

record NamespacedName =
  Key_Name :: string
  Key_Namespace :: string

section \<open>Backup and storage resolution\<close>

text \<open>
  \<^verbatim>\<open>getBackup\<close>, as in the controller with the configuration gate. The argument
  \<open>client_Get\<close> is the object store's answer to a lookup by identity: the stored backup, or
  the error, in which case Go leaves the fresh object as it was. Dereferencing a nil
  \<^verbatim>\<open>BackupSource\<close> and indexing an empty slice are the panics of the Go code.
\<close>

definition getBackup ::
  "(NamespacedName \<Rightarrow> error + PerconaServerMongoDBBackup) \<Rightarrow> PerconaServerMongoDBRestore \<Rightarrow>
     (PerconaServerMongoDBBackup \<times> error option) go" where
  "getBackup client_Get cr =
     (if length (BackupName (Spec cr)) = 0 \<and> BackupSource (Spec cr) \<noteq> None then
        (case BackupSource (Spec cr) of
           None \<Rightarrow> Panics
         | Some src \<Rightarrow>
             (let s = strings_Split (Destination src) ''/'' in
              if length s = 0 then Panics
              else
                (let backupName = s ! (length s - 1) in
                 Returns
                   (\<lparr>Backup_Name = Name cr, Backup_Namespace = Namespace cr,
                     Backup_Spec = \<lparr>Backup_ClusterName = ClusterName (Spec cr),
                       Backup_StorageName = StorageName (Spec cr)\<rparr>,
                     Backup_Status = \<lparr>Backup_Type = Backup_Type src,
                       Backup_State = BackupStateReady,
                       Destination = Destination src,
                       Status_StorageName = StorageName (Spec cr),
                       S3 = S3 src, Azure = Azure src, Filesystem = None,
                       PBMName = backupName\<rparr>\<rparr>, None))))
      else
        (case client_Get \<lparr>Key_Name = BackupName (Spec cr), Key_Namespace = Namespace cr\<rparr> of
           Inl err \<Rightarrow> Returns (zero_Backup, Some err)
         | Inr backup \<Rightarrow> Returns (backup, None)))"

text \<open>\<^verbatim>\<open>getBackup\<close> in the version of the controller that has no configuration gate;
  it also copies the filesystem descriptor.\<close>

definition getBackup2 ::
  "(NamespacedName \<Rightarrow> error + PerconaServerMongoDBBackup) \<Rightarrow> PerconaServerMongoDBRestore \<Rightarrow>
     (PerconaServerMongoDBBackup \<times> error option) go" where
  "getBackup2 client_Get cr =
     (if length (BackupName (Spec cr)) = 0 \<and> BackupSource (Spec cr) \<noteq> None then
        (case BackupSource (Spec cr) of
           None \<Rightarrow> Panics
         | Some src \<Rightarrow>
             (let s = strings_Split (Destination src) ''/'' in
              if length s = 0 then Panics
              else
                (let backupName = s ! (length s - 1) in
                 Returns
                   (\<lparr>Backup_Name = Name cr, Backup_Namespace = Namespace cr,
                     Backup_Spec = \<lparr>Backup_ClusterName = ClusterName (Spec cr),
                       Backup_StorageName = StorageName (Spec cr)\<rparr>,
                     Backup_Status = \<lparr>Backup_Type = Backup_Type src,
                       Backup_State = BackupStateReady,
                       Destination = Destination src,
                       Status_StorageName = StorageName (Spec cr),
                       S3 = S3 src, Azure = Azure src, Filesystem = Filesystem src,
                       PBMName = backupName\<rparr>\<rparr>, None))))
      else
        (case client_Get \<lparr>Key_Name = BackupName (Spec cr), Key_Namespace = Namespace cr\<rparr> of
           Inl err \<Rightarrow> Returns (zero_Backup, Some err)
         | Inr backup \<Rightarrow> Returns (backup, None)))"

text \<open>\<^verbatim>\<open>errors.Errorf("unable to get storage '%s'", storageName)\<close>.\<close>

definition unable_to_get_storage :: "string \<Rightarrow> error" where
  "unable_to_get_storage storageName =
     errors_New (''unable to get storage '' @ [CHR 0x27] @ storageName @ [CHR 0x27])"

text \<open>
  \<^verbatim>\<open>getStorage\<close>, as in the controller with the configuration gate: the storage type
  starts as S3 and is replaced only when the Azure descriptor is present.
\<close>

definition getStorage ::
  "PerconaServerMongoDBRestore \<Rightarrow> PerconaServerMongoDB \<Rightarrow> string \<Rightarrow>
     (BackupStorageSpec \<times> error option) go" where
  "getStorage cr cluster storageName =
     (if length storageName > 0 then
        (case Storages cluster storageName of
           None \<Rightarrow> Returns (zero_BackupStorageSpec, Some (unable_to_get_storage storageName))
         | Some storage \<Rightarrow> Returns (storage, None))
      else
        (case BackupSource (Spec cr) of
           None \<Rightarrow> Panics
         | Some src \<Rightarrow>
             (case Azure src of
                Some az \<Rightarrow>
                  Returns (\<lparr>Storage_Type = storage_Azure, Storage_S3 = zero_S3,
                    Storage_Azure = az, Storage_Filesystem = zero_Filesystem\<rparr>, None)
              | None \<Rightarrow>
                  (case S3 src of
                     Some s3 \<Rightarrow>
                       Returns (\<lparr>Storage_Type = storage_S3, Storage_S3 = s3,
                         Storage_Azure = zero_Azure, Storage_Filesystem = zero_Filesystem\<rparr>, None)
                   | None \<Rightarrow>
                       Returns (\<lparr>Storage_Type = storage_S3, Storage_S3 = zero_S3,
                         Storage_Azure = zero_Azure, Storage_Filesystem = zero_Filesystem\<rparr>,
                         None)))))"

text \<open>
  \<^verbatim>\<open>getStorage\<close> in the version of the controller that has no configuration gate: a
  switch over the three descriptors with no default case, so the storage type stays empty
  when none is present.
\<close>

definition getStorage2 ::
  "PerconaServerMongoDBRestore \<Rightarrow> PerconaServerMongoDB \<Rightarrow> string \<Rightarrow>
     (BackupStorageSpec \<times> error option) go" where
  "getStorage2 cr cluster storageName =
     (if length storageName > 0 then
        (case Storages cluster storageName of
           None \<Rightarrow> Returns (zero_BackupStorageSpec, Some (unable_to_get_storage storageName))
         | Some storage \<Rightarrow> Returns (storage, None))
      else
        (case BackupSource (Spec cr) of
           None \<Rightarrow> Panics
         | Some src \<Rightarrow>
             (case Azure src of
                Some az \<Rightarrow>
                  Returns (\<lparr>Storage_Type = storage_Azure, Storage_S3 = zero_S3,
                    Storage_Azure = az, Storage_Filesystem = zero_Filesystem\<rparr>, None)
              | None \<Rightarrow>
                  (case S3 src of
                     Some s3 \<Rightarrow>
                       Returns (\<lparr>Storage_Type = storage_S3, Storage_S3 = s3,
                         Storage_Azure = zero_Azure, Storage_Filesystem = zero_Filesystem\<rparr>, None)
                   | None \<Rightarrow>
                       (case Filesystem src of
                          Some fs \<Rightarrow>
                            Returns (\<lparr>Storage_Type = storage_Filesystem, Storage_S3 = zero_S3,
                              Storage_Azure = zero_Azure, Storage_Filesystem = fs\<rparr>, None)
                        | None \<Rightarrow>
                            Returns (\<lparr>Storage_Type = [], Storage_S3 = zero_S3,
                              Storage_Azure = zero_Azure, Storage_Filesystem = zero_Filesystem\<rparr>,
                              None))))))"

section \<open>Bounded retry\<close>

text \<open>
  \<^verbatim>\<open>wait.Backoff\<close> of the Kubernetes client library, with the duration in milliseconds.
  The factor is a whole number in both uses here; the jitter (a fraction, here in
  percent) lengthens each sleep by a random share of at most that fraction, which the
  model leaves out: the sleeps it records are the durations before jitter.
\<close>

record Backoff =
  Duration :: nat
  Factor :: nat
  Jitter_percent :: nat
  Steps :: nat

text \<open>\<^verbatim>\<open>Backoff.Step\<close>: the duration to sleep now, and the backoff for the next round.\<close>

definition Backoff_Step :: "Backoff \<Rightarrow> nat \<times> Backoff" where
  "Backoff_Step b =
     (if Steps b < 1 then (Duration b, b)
      else (Duration b,
            b\<lparr>Steps := Steps b - 1,
              Duration := (if Factor b \<noteq> 0 then Duration b * Factor b else Duration b)\<rparr>))"

text \<open>What the retry loop has done so far; \<open>lastErr\<close> is the variable of that name in
  \<^verbatim>\<open>retry.OnError\<close>.\<close>

record retry_state =
  Attempts :: nat
  Sleeps :: "nat list"
  lastErr :: "error option"

definition retry_start :: retry_state where
  "retry_start = \<lparr>Attempts = 0, Sleeps = [], lastErr = None\<rparr>"

text \<open>
  \<^verbatim>\<open>retry.OnError(backoff, retriable, fn)\<close>, that is \<^verbatim>\<open>wait.ExponentialBackoff\<close> around
  \<^verbatim>\<open>fn\<close>: while steps remain, call \<^verbatim>\<open>fn\<close>; return nil when it succeeds and its error when
  that is not retriable; otherwise remember the error, stop if this was the last step, else
  sleep and go on. Running out of steps returns the remembered error. \<open>fn i\<close> is the outcome
  of the call number \<open>i\<close>, counted from 0.
\<close>

function retry_OnError_loop ::
  "Backoff \<Rightarrow> (error \<Rightarrow> bool) \<Rightarrow> (nat \<Rightarrow> error option) \<Rightarrow> retry_state \<Rightarrow>
     error option \<times> retry_state" where
  "retry_OnError_loop b retriable fn st =
     (if Steps b > 0 then
        (case fn (Attempts st) of
           None \<Rightarrow> (None, st\<lparr>Attempts := Suc (Attempts st)\<rparr>)
         | Some err \<Rightarrow>
             if retriable err then
               (if Steps b = 1 then
                  (Some err, st\<lparr>Attempts := Suc (Attempts st), lastErr := Some err\<rparr>)
                else
                  retry_OnError_loop (snd (Backoff_Step b)) retriable fn
                    (st\<lparr>Attempts := Suc (Attempts st), lastErr := Some err,
                       Sleeps := Sleeps st @ [fst (Backoff_Step b)]\<rparr>))
             else (Some err, st\<lparr>Attempts := Suc (Attempts st)\<rparr>))
      else (lastErr st, st))"
  by pat_completeness auto
termination
  by (relation "measure (\<lambda>(b, retriable, fn, st). Steps b)") (auto simp: Backoff_Step_def)

declare retry_OnError_loop.simps [simp del]

definition retry_OnError ::
  "Backoff \<Rightarrow> (error \<Rightarrow> bool) \<Rightarrow> (nat \<Rightarrow> error option) \<Rightarrow> error option \<times> retry_state" where
  "retry_OnError b retriable fn = retry_OnError_loop b retriable fn retry_start"

definition IsConflict :: "error \<Rightarrow> bool" where
  "IsConflict e = (Status_reason e = StatusReasonConflict)"


section \<open>The status writer\<close>

text \<open>
  The object store as \<^verbatim>\<open>updateStatus\<close> meets it: what the first read, the status update
  and the second read of the attempt number \<open>i\<close> answer. The answers are arbitrary, so
  every behaviour of the store, of its cache and of concurrent writers is covered.
\<close>

record StatusAPI =
  api_Get :: "nat \<Rightarrow> NamespacedName \<Rightarrow> error + PerconaServerMongoDBRestore"
  api_Update :: "nat \<Rightarrow> PerconaServerMongoDBRestore \<Rightarrow> error option"
  api_Get_again :: "nat \<Rightarrow> NamespacedName \<Rightarrow> error + PerconaServerMongoDBRestore"

text \<open>The backoff of \<^verbatim>\<open>updateStatus\<close>: 5 steps, 500ms, factor 5.0, jitter 0.1.\<close>

definition backoff :: Backoff where
  "backoff = \<lparr>Duration = 500, Factor = 5, Jitter_percent = 10, Steps = 5\<rparr>"

text \<open>The function literal that \<^verbatim>\<open>updateStatus\<close> retries, at its call number \<open>i\<close>.\<close>

definition updateStatus_fn ::
  "StatusAPI \<Rightarrow> PerconaServerMongoDBRestore \<Rightarrow> nat \<Rightarrow> error option" where
  "updateStatus_fn api cr i =
     (case api_Get api i \<lparr>Key_Name = Name cr, Key_Namespace = Namespace cr\<rparr> of
        Inl err \<Rightarrow> Some err
      | Inr c \<Rightarrow>
          (case api_Update api i (c\<lparr>Status := Status cr\<rparr>) of
             Some err \<Rightarrow> Some err
           | None \<Rightarrow>
               (case api_Get_again api i \<lparr>Key_Name = Name cr, Key_Namespace = Namespace cr\<rparr> of
                  Inl err \<Rightarrow> Some err
                | Inr c' \<Rightarrow>
                    if State (Status c') \<noteq> State (Status cr)
                    then Some (errors_New ''status not updated'')
                    else None)))"

definition updateStatus_retry ::
  "StatusAPI \<Rightarrow> PerconaServerMongoDBRestore \<Rightarrow> error option \<times> retry_state" where
  "updateStatus_retry api cr = retry_OnError backoff (\<lambda>e. True) (updateStatus_fn api cr)"

definition updateStatus :: "StatusAPI \<Rightarrow> PerconaServerMongoDBRestore \<Rightarrow> error option" where
  "updateStatus api cr =
     (let err = fst (updateStatus_retry api cr) in
      if IsNotFound err then None else errors_Wrap err ''write status'')"

section \<open>The reconciliation tick\<close>



text \<open>\<^verbatim>\<open>reconcile.Result\<close>, the delay in seconds.\<close>

record Result =
  Requeue :: bool
  RequeueAfter :: nat



text \<open>What a tick does to the agent and to the cluster object, in order.\<close>

datatype Action =
  Exec string "string list"
| SetStorageConfig_call string BackupStorageSpec
| UpdateClusterStatus string
| LogicalRestore
| PhysicalRestore

text \<open>
  The collaborators of the tick, as the answers they give: the request's field check, the
  object store, the topology provider, the command channel into the agent's container,
  the functions of the package that the controller calls, and the clock. A pod is
  its name.
\<close>

record Env =
  CheckFields :: "PerconaServerMongoDBRestore \<Rightarrow> error option"
  client_Get_Backup :: "NamespacedName \<Rightarrow> error + PerconaServerMongoDBBackup"
  client_Get_Cluster :: "NamespacedName \<Rightarrow> error + PerconaServerMongoDB"
  GetOneReadyRSPod :: "PerconaServerMongoDB \<Rightarrow> string \<Rightarrow> error + string"
  GetConfigPathForStorage :: "string \<Rightarrow> string"
  exec :: "string \<Rightarrow> string list \<Rightarrow> string \<times> string \<times> error option"
  SetStorageConfig :: "string \<Rightarrow> BackupStorageSpec \<Rightarrow> error option"
  cluster_api_Get :: "nat \<Rightarrow> NamespacedName \<Rightarrow> error + PerconaServerMongoDB"
  cluster_api_Update :: "nat \<Rightarrow> PerconaServerMongoDB \<Rightarrow> error option"
  reconcileLogicalRestore ::
    "PerconaServerMongoDBRestore \<Rightarrow> PerconaServerMongoDBBackup \<Rightarrow>
       PerconaServerMongoDBRestoreStatus \<times> error option"
  reconcilePhysicalRestore ::
    "PerconaServerMongoDBRestore \<Rightarrow> PerconaServerMongoDBBackup \<Rightarrow>
       PerconaServerMongoDBRestoreStatus \<times> error option"
  Now :: Time
  status_api :: StatusAPI

text \<open>
  The outcome of a tick: what \<^verbatim>\<open>Reconcile\<close> returns (\<open>None\<close> when it panics), the object
  its deferred function hands to \<^verbatim>\<open>updateStatus\<close> if it does, the error of that call, and
  the actions.
\<close>

record Outcome =
  Returned :: "(Result \<times> error option) option"
  Persisted :: "PerconaServerMongoDBRestore option"
  Write_error :: "error option"
  Effects :: "Action list"

text \<open>
  The deferred function of \<^verbatim>\<open>Reconcile\<close>. Its \<open>err\<close> is the variable \<^verbatim>\<open>err\<close> of the function
  body at the moment of leaving, which is not always the error returned. The comparison
  of the conditions by \<^verbatim>\<open>reflect.DeepEqual\<close> is equality of the lists (a nil and an empty
  slice are not told apart by the model).
\<close>

definition finalize ::
  "StatusAPI \<Rightarrow> PerconaServerMongoDBRestore \<Rightarrow> PerconaServerMongoDBRestoreStatus \<Rightarrow>
     error option \<Rightarrow> PerconaServerMongoDBRestore option \<times> error option" where
  "finalize api cr status err =
     (let status = (case err of
                      Some e \<Rightarrow> status\<lparr>State := RestoreStateError, Error := err_Error e\<rparr>
                    | None \<Rightarrow> status)
      in if State (Status cr) \<noteq> State status \<or> Error (Status cr) \<noteq> Error status \<or>
            Conditions (Status cr) \<noteq> Conditions status
         then (Some (cr\<lparr>Status := status\<rparr>), updateStatus api (cr\<lparr>Status := status\<rparr>))
         else (None, None))"

definition leave ::
  "'a Env_scheme \<Rightarrow> PerconaServerMongoDBRestore \<Rightarrow> PerconaServerMongoDBRestoreStatus \<Rightarrow> error option \<Rightarrow>
     (Result \<times> error option) option \<Rightarrow> Action list \<Rightarrow> Outcome" where
  "leave env cr status err ret effects =
     (case finalize (status_api env) cr status err of
        (persisted, uerr) \<Rightarrow>
          \<lparr>Returned = ret, Persisted = persisted, Write_error = uerr, Effects = effects\<rparr>)"









section \<open>The reconciliation tick without the configuration gate\<close>








section \<open>Sequences of ticks\<close>



section \<open>The configuration artifact\<close>

type_synonym bytes = string

text \<open>
  A \<^verbatim>\<open>corev1.Secret\<close>: a Go map is \<open>None\<close> when nil. Reading a nil map gives the zero
  value; writing to it panics. (An entry that holds a nil slice reads like a missing one
  and is not told apart from it.)
\<close>

record Secret =
  Secret_Name :: string
  Secret_Namespace :: string
  Annotations :: "(string \<rightharpoonup> string) option"
  Data :: "(string \<rightharpoonup> bytes) option"

text \<open>The agent's configuration; the storage blocks are built by other functions
  of the package, so their types are left open.\<close>

record PITRConf =
  Conf_Enabled :: bool
  Conf_OplogSpanMin :: float64
  Conf_OplogOnly :: bool
  Conf_Compression :: string
  Conf_CompressionLevel :: "int option"

record ('s, 'a) StorageConf =
  Conf_Type :: string
  Conf_S3 :: "'s option"
  Conf_Azure :: "'a option"

record ('s, 'a) Config =
  Conf_PITR :: PITRConf
  Conf_Storage :: "('s, 'a) StorageConf"

text \<open>
  The collaborators of the synchronizer: the credential provider, the constructors of
  the storage blocks, the YAML serializer, the SHA-256 digest in hexadecimal, and the
  object store for the secret.
\<close>

record ('c, 's, 'a) ConfigEnv =
  GetS3Crendentials :: "string \<Rightarrow> BackupStorageS3Spec \<Rightarrow> error + 'c"
  NewS3Config :: "BackupStorageS3Spec \<Rightarrow> 'c \<Rightarrow> 's"
  GetAzureCrendentials :: "string \<Rightarrow> BackupStorageAzureSpec \<Rightarrow> error + string \<times> 'c"
  NewAzureConfig :: "BackupStorageAzureSpec \<Rightarrow> string \<Rightarrow> 'c \<Rightarrow> 'a"
  yaml_Marshal :: "('s, 'a) Config \<Rightarrow> error + bytes"
  sha256_hex :: "bytes \<Rightarrow> string"
  secret_Get :: "NamespacedName \<Rightarrow> error + Secret"
  secret_Create :: "Secret \<Rightarrow> error option"
  secret_Update :: "Secret \<Rightarrow> error option"

definition GenerateConfig ::
  "('c, 's, 'a) ConfigEnv \<Rightarrow> PerconaServerMongoDB \<Rightarrow> BackupStorageSpec \<Rightarrow>
     ('s, 'a) Config \<times> error option" where
  "GenerateConfig env cr stg =
     (let cnf = \<lparr>Conf_PITR = \<lparr>Conf_Enabled = PITR_Enabled (PITR cr),
                    Conf_OplogSpanMin = PITR_OplogSpanMin (PITR cr),
                    Conf_OplogOnly = PITR_OplogOnly (PITR cr),
                    Conf_Compression = PITR_CompressionType (PITR cr),
                    Conf_CompressionLevel = PITR_CompressionLevel (PITR cr)\<rparr>,
                  Conf_Storage = \<lparr>Conf_Type = [], Conf_S3 = None, Conf_Azure = None\<rparr>\<rparr>
      in if Storage_Type stg = storage_S3 then
           (case GetS3Crendentials env (Cluster_Namespace cr) (Storage_S3 stg) of
              Inl err \<Rightarrow> (cnf, errors_Wrap (Some err) ''get S3 credentials'')
            | Inr creds \<Rightarrow>
                (cnf\<lparr>Conf_Storage := \<lparr>Conf_Type = storage_S3,
                   Conf_S3 = Some (NewS3Config env (Storage_S3 stg) creds), Conf_Azure = None\<rparr>\<rparr>,
                 None))
         else if Storage_Type stg = storage_Azure then
           (case GetAzureCrendentials env (Cluster_Namespace cr) (Storage_Azure stg) of
              Inl err \<Rightarrow> (cnf, errors_Wrap (Some err) ''get Azure credentials'')
            | Inr (account, creds) \<Rightarrow>
                (cnf\<lparr>Conf_Storage := \<lparr>Conf_Type = storage_Azure, Conf_S3 = None,
                   Conf_Azure = Some (NewAzureConfig env (Storage_Azure stg) account creds)\<rparr>\<rparr>,
                 None))
         else (cnf, None))"

datatype SecretWrite = Create Secret | Update Secret

text \<open>\<^verbatim>\<open>secret.Data["config.yaml"]\<close>: the zero value (nil) for a nil map or a missing key.\<close>

definition config_yaml :: "Secret \<Rightarrow> bytes option" where
  "config_yaml secret = (case Data secret of None \<Rightarrow> None | Some d \<Rightarrow> d ''config.yaml'')"

text \<open>
  \<^verbatim>\<open>CreateOrUpdateConfig\<close>: what it returns (or that it panics) and the writes it submits to
  the object store. The rendered bytes are never nil, so \<^verbatim>\<open>reflect.DeepEqual\<close> with the
  stored entry holds exactly when the entry is present with the same bytes.
\<close>

definition CreateOrUpdateConfig ::
  "('c, 's, 'a) ConfigEnv \<Rightarrow> PerconaServerMongoDB \<Rightarrow> BackupStorageSpec \<Rightarrow>
     error option go \<times> SecretWrite list" where
  "CreateOrUpdateConfig env cr stg =
     (case GenerateConfig env cr stg of
        (cnf, Some err) \<Rightarrow> (Returns (errors_Wrap (Some err) ''get config''), [])
      | (cnf, None) \<Rightarrow>
          (case yaml_Marshal env cnf of
             Inl err \<Rightarrow> (Returns (errors_Wrap (Some err) ''marshal config''), [])
           | Inr cnfBytes \<Rightarrow>
               (let name = Cluster_Name cr @ ''-pbm-config'';
                    sha256sum = sha256_hex env cnfBytes
                in case secret_Get env \<lparr>Key_Name = name, Key_Namespace = Cluster_Namespace cr\<rparr> of
                     Inl err \<Rightarrow>
                       if IsNotFound (Some err) then
                         (let secret =
                            \<lparr>Secret_Name = name, Secret_Namespace = Cluster_Namespace cr,
                             Annotations = Some [''percona.com/config-sum'' \<mapsto> sha256sum],
                             Data = Some [''config.yaml'' \<mapsto> cnfBytes]\<rparr>
                          in (Returns (errors_Wrap (secret_Create env secret) ''create secret''),
                              [Create secret]))
                       else (Returns (errors_Wrap (Some err) ''get secret''), [])
                   | Inr secret \<Rightarrow>
                       if config_yaml secret = Some cnfBytes then (Returns None, [])
                       else
                         (let annotations =
                            (case Annotations secret of None \<Rightarrow> Map.empty | Some a \<Rightarrow> a);
                              annotations =
                                (annotations(''percona.com/config-applied'' := None))
                                  (''percona.com/config-sum'' \<mapsto> sha256sum)
                          in case Data secret of
                               None \<Rightarrow> (Panics, [])
                             | Some d \<Rightarrow>
                                 (let secret' =
                                    secret\<lparr>Annotations := Some annotations,
                                      Data := Some (d(''config.yaml'' \<mapsto> cnfBytes))\<rparr>
                                  in (Returns (errors_Wrap (secret_Update env secret')
                                        ''update secret''),
                                      [Update secret']))))))"

section \<open>The end of the latest point-in-time chunk\<close>

text \<open>
  \<^verbatim>\<open>time.Unix(sec, 0).UTC()\<close> and \<^verbatim>\<open>Format\<close> of Go's standard library. Seconds are
  \<^verbatim>\<open>int64\<close>, so the sums wrap. \<^verbatim>\<open>time.Unix\<close> stores the seconds since the year 1,
  and \<^verbatim>\<open>abs\<close> turns them into the \<^verbatim>\<open>uint64\<close> seconds since the absolute zero year, which is
  1 modulo 400.
\<close>

definition unixToInternal :: "64 word" where
  "unixToInternal = (1969 * 365 + 1969 div 4 - 1969 div 100 + 1969 div 400) * 86400"

definition internalToAbsolute :: "64 word" where
  "internalToAbsolute = 9223371966579724800"

definition absoluteZeroYear :: int where
  "absoluteZeroYear = - 292277022399"

definition time_Unix :: "64 word \<Rightarrow> 64 word" where
  "time_Unix sec = sec + unixToInternal"

definition Time_abs :: "64 word \<Rightarrow> nat" where
  "Time_abs ext = unat ((ext - unixToInternal) + (unixToInternal + internalToAbsolute))"

definition isLeap :: "int \<Rightarrow> bool" where
  "isLeap year = (year mod 4 = 0 \<and> (year mod 100 \<noteq> 0 \<or> year mod 400 = 0))"

definition daysBefore :: "nat list" where
  "daysBefore = [0, 31, 59, 90, 120, 151, 181, 212, 243, 273, 304, 334, 365]"

text \<open>Cutting off cycles of \<open>len\<close> days: the number of whole cycles and the days left.
  Where the last cycle is a day longer, the count is capped (\<^verbatim>\<open>n -= n >> 2\<close>).\<close>

definition cut :: "nat \<Rightarrow> nat \<Rightarrow> nat \<times> nat" where
  "cut len d = (let n = d div len in (n, d - len * n))"

definition cut_capped :: "nat \<Rightarrow> nat \<Rightarrow> nat \<times> nat" where
  "cut_capped len d = (let n = d div len; n = n - n div 4 in (n, d - len * n))"

text \<open>\<^verbatim>\<open>absDate\<close>: the year and the day of the year (from 0) of absolute seconds, by cutting
  off cycles of 400, 100, 4 and 1 years.\<close>

definition absDate :: "nat \<Rightarrow> int \<times> nat" where
  "absDate absolute =
     (let d = absolute div 86400;
          (n400, d) = cut 146097 d;
          (n100, d) = cut_capped 36524 d;
          (n4, d) = cut 1461 d;
          (n1, d) = cut_capped 365 d;
          y = 400 * n400 + 100 * n100 + 4 * n4 + n1
      in (int y + absoluteZeroYear, d))"

text \<open>The rest of \<^verbatim>\<open>absDate\<close>: the month (from 1) and the day of the month (from 1).\<close>

definition month_day :: "int \<Rightarrow> nat \<Rightarrow> nat \<times> nat" where
  "month_day year yday =
     (if isLeap year \<and> yday = 31 + 29 - 1 then (2, 29)
      else
        (let day = (if isLeap year \<and> yday > 31 + 29 - 1 then yday - 1 else yday);
             month = day div 31;
             end = daysBefore ! (month + 1)
         in if day \<ge> end then (month + 2, day - end + 1)
            else (month + 1, day - daysBefore ! month + 1)))"

text \<open>\<^verbatim>\<open>absClock\<close>: the hour, the minute and the second of the day.\<close>

definition absClock :: "nat \<Rightarrow> nat \<times> nat \<times> nat" where
  "absClock absolute =
     (let sec = absolute mod 86400;
          hour = sec div 3600;
          sec = sec - hour * 3600;
          min = sec div 60;
          sec = sec - min * 60
      in (hour, min, sec))"

text \<open>\<^verbatim>\<open>appendInt\<close>: a sign for a negative number, then the decimal digits, padded with
  zeros to the width.\<close>

definition digit :: "nat \<Rightarrow> char" where
  "digit n = ''0123456789'' ! n"

fun digits :: "nat \<Rightarrow> string" where
  "digits n = (if n < 10 then [digit n] else digits (n div 10) @ [digit (n mod 10)])"

declare digits.simps [simp del]

definition appendInt :: "int \<Rightarrow> nat \<Rightarrow> string" where
  "appendInt x width =
     (let ds = digits (nat \<bar>x\<bar>)
      in (if x < 0 then ''-'' else []) @ replicate (width - length ds) (CHR ''0'') @ ds)"

text \<open>\<^verbatim>\<open>time.Unix(sec, 0).UTC().Format("2006-01-02T15:04:05")\<close>.\<close>

definition Format_UTC :: "64 word \<Rightarrow> string" where
  "Format_UTC sec =
     (let absolute = Time_abs (time_Unix sec);
          (year, yday) = absDate absolute;
          (month, day) = month_day year yday;
          (hour, min, sec) = absClock absolute
      in appendInt year 4 @ ''-'' @ appendInt (int month) 2 @ ''-'' @ appendInt (int day) 2 @ ''T'' @
         appendInt (int hour) 2 @ '':'' @ appendInt (int min) 2 @ '':'' @ appendInt (int sec) 2)"

text \<open>\<^verbatim>\<open>LatestPITRChunk\<close>, on the result of \<^verbatim>\<open>GetStatus\<close>; indexing the empty chunk list
  panics.\<close>

definition LatestPITRChunk :: "PBMStatus \<times> error option \<Rightarrow> (string \<times> error option) go" where
  "LatestPITRChunk gs =
     (case gs of (status, err) \<Rightarrow>
        (case err of
           Some e \<Rightarrow> Returns ([], Some e)
         | None \<Rightarrow>
             (let chunks = PITRChunks_Chunks status in
              if length chunks = 0 then Panics
              else
                (let latest = Range_End (chunks ! (length chunks - 1))
                 in Returns (Format_UTC latest, None)))))"

section \<open>The Gregorian calendar\<close>

text \<open>
  What the specification means by an end in epoch seconds, UTC, written as year, month,
  day, hour, minute and second: the second of the proleptic Gregorian calendar counted
  from 1970-01-01T00:00:00. These definitions do not come from the code; the formatter
  is compared with them.
\<close>

definition leap_year :: "int \<Rightarrow> bool" where
  "leap_year y = (4 dvd y \<and> (\<not> 100 dvd y \<or> 400 dvd y))"

definition days_in_month :: "int \<Rightarrow> nat \<Rightarrow> nat" where
  "days_in_month y m =
     (if m = 2 then (if leap_year y then 29 else 28)
      else if m = 4 \<or> m = 6 \<or> m = 9 \<or> m = 11 then 30 else 31)"

text \<open>The days of the year \<open>y\<close> before its month \<open>m\<close>.\<close>

fun days_before_month :: "int \<Rightarrow> nat \<Rightarrow> nat" where
  "days_before_month y m =
     (if m \<le> 1 then 0 else days_before_month y (m - 1) + days_in_month y (m - 1))"

declare days_before_month.simps [simp del]

text \<open>The days from 0001-01-01 to the first day of the year \<open>y\<close>: 365 for each year and
  one more for each leap year.\<close>

definition days_before_year :: "int \<Rightarrow> int" where
  "days_before_year y = 365 * (y - 1) + (y - 1) div 4 - (y - 1) div 100 + (y - 1) div 400"

definition epoch_second :: "int \<Rightarrow> nat \<Rightarrow> nat \<Rightarrow> nat \<Rightarrow> nat \<Rightarrow> nat \<Rightarrow> int" where
  "epoch_second y mo d h mi s =
     86400 * (days_before_year y - days_before_year 1970 + int (days_before_month y mo) + int d - 1) +
     int (3600 * h + 60 * mi + s)"

section \<open>Sample objects\<close>

text \<open>Concrete requests, backups and clusters at which the theorems are evaluated.\<close>

definition sample_source :: PerconaServerMongoDBBackupStatus where
  "sample_source =
     \<lparr>Backup_Type = ''logical'', Backup_State = BackupStateNew,
      Destination = ''s3://bucket/2023-11-14T22:13:20Z'', Status_StorageName = [],
      S3 = Some \<lparr>S3_Bucket = ''bucket'', S3_Prefix = [], S3_CredentialsSecret = ''s3-secret''\<rparr>,
      Azure = None, Filesystem = None, PBMName = []\<rparr>"

definition sample_restore :: PerconaServerMongoDBRestore where
  "sample_restore =
     \<lparr>Name = ''restore1'', Namespace = ''psmdb'',
      Spec = \<lparr>ClusterName = ''cluster1'', BackupName = ''backup1'', StorageName = [],
        BackupSource = None\<rparr>,
      Status = \<lparr>State = RestoreStateNew, Error = [], Conditions = [], Status_rest = []\<rparr>\<rparr>"

definition sample_backup :: PerconaServerMongoDBBackup where
  "sample_backup =
     \<lparr>Backup_Name = ''backup1'', Backup_Namespace = ''psmdb'',
      Backup_Spec = \<lparr>Backup_ClusterName = ''cluster1'', Backup_StorageName = ''minio''\<rparr>,
      Backup_Status = \<lparr>Backup_Type = ''logical'', Backup_State = BackupStateReady,
        Destination = ''s3://bucket/2023-11-14T22:13:20Z'', Status_StorageName = ''minio'',
        S3 = Some \<lparr>S3_Bucket = ''bucket'', S3_Prefix = [], S3_CredentialsSecret = ''s3-secret''\<rparr>,
        Azure = None, Filesystem = None, PBMName = ''2023-11-14T22:13:20Z''\<rparr>\<rparr>"

definition sample_cluster :: PerconaServerMongoDB where
  "sample_cluster =
     \<lparr>Cluster_Name = ''cluster1'', Cluster_Namespace = ''psmdb'', Replsets = [''rs0''],
      Storages = [''minio'' \<mapsto>
        \<lparr>Storage_Type = ''s3'',
         Storage_S3 = \<lparr>S3_Bucket = ''bucket'', S3_Prefix = [], S3_CredentialsSecret = ''s3-secret''\<rparr>,
         Storage_Azure = \<lparr>Azure_Container = [], Azure_Prefix = [], Azure_CredentialsSecret = []\<rparr>,
         Storage_Filesystem = \<lparr>Filesystem_Path = []\<rparr>\<rparr>],
      PITR = \<lparr>PITR_Enabled = False, PITR_OplogSpanMin = Float64 10 0, PITR_OplogOnly = False,
        PITR_CompressionType = [], PITR_CompressionLevel = None\<rparr>,
      Status_BackupStorage = []\<rparr>"

text \<open>An object store that holds \<open>sample_backup\<close> and nothing else.\<close>

definition sample_store :: "NamespacedName \<Rightarrow> error + PerconaServerMongoDBBackup" where
  "sample_store key =
     (if Key_Name key = ''backup1'' \<and> Key_Namespace key = ''psmdb'' then Inr sample_backup
      else Inl \<lparr>Msg = ''not found'', Status_reason = StatusReasonNotFound\<rparr>)"

definition not_found :: error where
  "not_found = \<lparr>Msg = ''perconaservermongodbrestores.psmdb.percona.com not found'',
     Status_reason = StatusReasonNotFound\<rparr>"

definition conflict :: error where
  "conflict = \<lparr>Msg = ''the object has been modified; please apply your changes to the latest version and try again'',
     Status_reason = StatusReasonConflict\<rparr>"

text \<open>A store whose first read answers \<open>get\<close> and whose update answers \<open>upd\<close>, by attempt;
  the second read shows the object as written.\<close>

definition scripted_api ::
  "(nat \<Rightarrow> error option) \<Rightarrow> (nat \<Rightarrow> error option) \<Rightarrow> PerconaServerMongoDBRestore \<Rightarrow> StatusAPI" where
  "scripted_api get upd cr =
     \<lparr>api_Get = (\<lambda>i key. case get i of Some e \<Rightarrow> Inl e | None \<Rightarrow> Inr cr),
      api_Update = (\<lambda>i c. upd i),
      api_Get_again = (\<lambda>i key. Inr cr)\<rparr>"





text \<open>Collaborators of the synchronizer that render a fixed text, with a stand-in for
  the digest; \<open>got\<close> is what the object store answers to the read of the secret.\<close>

definition sample_config_env :: "error + Secret \<Rightarrow> (string, string, string) ConfigEnv" where
  "sample_config_env got =
     \<lparr>GetS3Crendentials = (\<lambda>ns s3. Inr ''key''),
      NewS3Config = (\<lambda>s3 creds. S3_Bucket s3),
      GetAzureCrendentials = (\<lambda>ns az. Inr (''account'', ''key'')),
      NewAzureConfig = (\<lambda>az account creds. Azure_Container az),
      yaml_Marshal = (\<lambda>cnf. Inr ''pitr: {}''),
      sha256_hex = (\<lambda>b. ''sum of '' @ b),
      secret_Get = (\<lambda>key. got),
      secret_Create = (\<lambda>secret. None),
      secret_Update = (\<lambda>secret. None)\<rparr>"

text \<open>The configuration secret of \<open>sample_cluster\<close> with no data and no annotations, as
  the object store returns a secret created empty.\<close>

definition empty_secret :: Secret where
  "empty_secret =
     \<lparr>Secret_Name = ''cluster1-pbm-config'', Secret_Namespace = ''psmdb'',
      Annotations = None, Data = None\<rparr>"

text \<open>The same secret with an older configuration that was marked as applied.\<close>

definition applied_secret :: Secret where
  "applied_secret =
     \<lparr>Secret_Name = ''cluster1-pbm-config'', Secret_Namespace = ''psmdb'',
      Annotations = Some [''percona.com/config-sum'' \<mapsto> ''sum of pitr: {enabled: true}'',
        ''percona.com/config-applied'' \<mapsto> ''true''],
      Data = Some [''config.yaml'' \<mapsto> ''pitr: {enabled: true}'']\<rparr>"

section \<open>Properties of the string helpers\<close>

lemma strings_HasPrefix_iff: "strings_HasPrefix s p \<longleftrightarrow> (\<exists>b. s = p @ b)"
  by (induction s p rule: strings_HasPrefix.induct) auto

lemma strings_Index_None_iff: "strings_Index s sub = None \<longleftrightarrow> \<not> (\<exists>a b. s = a @ sub @ b)"
proof (induction s)
  case Nil
  then show ?case by simp
next
  case (Cons c s)
  show ?case
  proof (cases "strings_HasPrefix (c # s) sub")
    case True
    then obtain b where "c # s = [] @ sub @ b" by (auto simp: strings_HasPrefix_iff)
    then have "\<exists>a b. c # s = a @ sub @ b" by blast
    with True show ?thesis by simp
  next
    case False
    have "(\<exists>a b. c # s = a @ sub @ b) \<longleftrightarrow> (\<exists>a b. s = a @ sub @ b)"
    proof
      assume "\<exists>a b. c # s = a @ sub @ b"
      then obtain a b where ab: "c # s = a @ sub @ b" by blast
      show "\<exists>a b. s = a @ sub @ b"
      proof (cases a)
        case Nil
        with ab False show ?thesis by (auto simp: strings_HasPrefix_iff)
      next
        case (Cons x a')
        with ab have "s = a' @ sub @ b" by simp
        then show ?thesis by blast
      qed
    next
      assume "\<exists>a b. s = a @ sub @ b"
      then obtain a b where "s = a @ sub @ b" by blast
      then have "c # s = (c # a) @ sub @ b" by simp
      then show "\<exists>a b. c # s = a @ sub @ b" by blast
    qed
    with False Cons.IH show ?thesis by simp
  qed
qed

lemma strings_Contains_iff: "strings_Contains s sub \<longleftrightarrow> (\<exists>a b. s = a @ sub @ b)"
  by (simp add: strings_Contains_def strings_Index_None_iff)

lemma strings_Index_Some:
  "strings_Index s sep = Some m \<Longrightarrow> s = take m s @ sep @ drop (m + length sep) s"
proof (induction s arbitrary: m)
  case Nil
  then show ?case by (simp split: if_splits)
next
  case (Cons c s)
  show ?case
  proof (cases "strings_HasPrefix (c # s) sep")
    case True
    with Cons.prems have "m = 0" by simp
    moreover from True obtain b where "c # s = sep @ b" by (auto simp: strings_HasPrefix_iff)
    ultimately show ?thesis by simp
  next
    case False
    with Cons.prems obtain m' where m': "strings_Index s sep = Some m'" "m = Suc m'" by auto
    from Cons.IH [OF m'(1)] m'(2) show ?thesis by simp
  qed
qed

lemma strings_Split_not_empty: "sep \<noteq> [] \<Longrightarrow> strings_Split s sep \<noteq> []"
  by (subst strings_Split.simps) (simp split: option.splits)

lemma last_strings_Split:
  "last (strings_Split s [c]) = rev (takeWhile (\<lambda>x. x \<noteq> c) (rev s))"
proof (induction s "[c]" rule: strings_Split.induct)
  case (1 s)
  show ?case
  proof (cases "strings_Index s [c]")
    case None
    then have "c \<notin> set s"
      by (auto simp: strings_Index_None_iff in_set_conv_decomp)
    then have "takeWhile (\<lambda>x. x \<noteq> c) (rev s) = rev s" by auto
    then have "rev (takeWhile (\<lambda>x. x \<noteq> c) (rev s)) = s" by (simp only: rev_rev_ident)
    moreover have "last (strings_Split s [c]) = s"
      using None by (subst strings_Split.simps) simp
    ultimately show ?thesis by (simp only:)
  next
    case (Some m)
    let ?rest = "drop (m + length [c]) s"
    from strings_Index_Some [OF Some] have s: "s = take m s @ [c] @ ?rest" .
    have "rev s = rev ?rest @ c # rev (take m s)"
      by (subst s) simp
    then have tw: "takeWhile (\<lambda>x. x \<noteq> c) (rev s) = takeWhile (\<lambda>x. x \<noteq> c) (rev ?rest)"
      by (simp add: takeWhile_tail)
    have "last (strings_Split s [c]) = last (strings_Split ?rest [c])"
      using Some strings_Split_not_empty [of "[c]" ?rest]
      by (subst strings_Split.simps) simp
    also have "\<dots> = rev (takeWhile (\<lambda>x. x \<noteq> c) (rev ?rest))"
      using "1.hyps" Some by simp
    finally show ?thesis using tw by simp
  qed
qed

lemma after_last_char:
  "name = rev (takeWhile (\<lambda>x. x \<noteq> c) (rev s)) \<Longrightarrow>
   c \<notin> set name \<and> (if c \<in> set s then \<exists>pre. s = pre @ [c] @ name else s = name)"
proof -
  assume n: "name = rev (takeWhile (\<lambda>x. x \<noteq> c) (rev s))"
  have 1: "c \<notin> set name" unfolding n using set_takeWhileD by fastforce
  have dec: "rev s = takeWhile (\<lambda>x. x \<noteq> c) (rev s) @ dropWhile (\<lambda>x. x \<noteq> c) (rev s)" by simp
  show ?thesis
  proof (cases "c \<in> set s")
    case False
    then have "takeWhile (\<lambda>x. x \<noteq> c) (rev s) = rev s" by auto
    with n 1 False show ?thesis by simp
  next
    case True
    then have "dropWhile (\<lambda>x. x \<noteq> c) (rev s) \<noteq> []" by auto
    then obtain y ys where d: "dropWhile (\<lambda>x. x \<noteq> c) (rev s) = y # ys" by (cases "dropWhile (\<lambda>x. x \<noteq> c) (rev s)") auto
    with hd_dropWhile [of "\<lambda>x. x \<noteq> c" "rev s"] have "y = c" by auto
    with dec d have "rev s = rev name @ c # ys" using n by simp
    then have "rev (rev s) = rev (rev name @ c # ys)" by simp
    then have "s = rev ys @ [c] @ name" by simp
    with 1 True show ?thesis by auto
  qed
qed

section \<open>Reclassification of the agent's "no configuration" failure\<close>

lemma IsNotConfigured_iff:
  "IsNotConfigured e \<longleftrightarrow> (\<exists>a b. err_Error e = a @ ''mongo: no documents in result'' @ b)"
  by (simp add: IsNotConfigured_def strings_Contains_iff)

lemma HasRunningOperation_failed:
  "HasRunningOperation (st, Some e) = (if IsNotConfigured e then (False, None) else (False, Some e))"
  by (simp add: HasRunningOperation_def)

text \<open>
  C2, as stated, at a concrete input: the failure text below contains
  \<^verbatim>\<open>no documents in result\<close>, yet \<^verbatim>\<open>HasRunningOperation\<close> hands the error back, because
  \<^verbatim>\<open>IsNotConfigured\<close> looks for the longer text \<^verbatim>\<open>mongo: no documents in result\<close>.
\<close>

theorem HasRunningOperation_short_sentinel_propagated:
  "strings_Contains ''stderr: Error: no documents in result'' ''no documents in result'' \<and>
   HasRunningOperation
     (\<lparr>PITRChunks_Chunks = [], PITR_Conf = False, PITR_Run = False, PITR_Error = [],
       Status_Running = \<lparr>OpID = [], Running_Status = [], StartTS = 0, Running_Name = [],
         Running_Type = []\<rparr>\<rparr>,
      Some \<lparr>Msg = ''stderr: Error: no documents in result'', Status_reason = StatusReasonUnknown\<rparr>)
   = (False,
      Some \<lparr>Msg = ''stderr: Error: no documents in result'', Status_reason = StatusReasonUnknown\<rparr>)"
  by (simp add: HasRunningOperation_def IsNotConfigured_def err_Error_def strings_Contains_def)

text \<open>
  C2, amended: an error of \<^verbatim>\<open>GetStatus\<close> whose text contains
  \<^verbatim>\<open>mongo: no documents in result\<close> makes \<^verbatim>\<open>HasRunningOperation\<close> return (false, nil);
  an error whose text does not contain it is returned unchanged, and so is, in particular,
  every error whose text does not contain \<^verbatim>\<open>no documents in result\<close>.
\<close>

theorem HasRunningOperation_not_configured:
  "((\<exists>a b. err_Error e = a @ ''mongo: no documents in result'' @ b) \<longrightarrow>
      HasRunningOperation (st, Some e) = (False, None)) \<and>
   (\<not> (\<exists>a b. err_Error e = a @ ''mongo: no documents in result'' @ b) \<longrightarrow>
      HasRunningOperation (st, Some e) = (False, Some e)) \<and>
   (\<not> (\<exists>a b. err_Error e = a @ ''no documents in result'' @ b) \<longrightarrow>
      HasRunningOperation (st, Some e) = (False, Some e))"
proof -
  have short: "\<exists>a b. err_Error e = a @ ''no documents in result'' @ b"
    if "\<exists>a b. err_Error e = a @ ''mongo: no documents in result'' @ b"
  proof -
    from that obtain a b where "err_Error e = a @ ''mongo: no documents in result'' @ b" by blast
    then have "err_Error e = (a @ ''mongo: '') @ ''no documents in result'' @ b" by simp
    then show ?thesis by blast
  qed
  show ?thesis
    using short by (auto simp: HasRunningOperation_failed IsNotConfigured_iff)
qed

theorem HasRunningOperation_not_configured_witness:
  "(\<exists>a b. err_Error \<lparr>Msg = ''stderr: Error: mongo: no documents in result'',
              Status_reason = StatusReasonUnknown\<rparr> = a @ ''mongo: no documents in result'' @ b) \<and>
   HasRunningOperation
     (\<lparr>PITRChunks_Chunks = [], PITR_Conf = False, PITR_Run = False, PITR_Error = [],
       Status_Running = \<lparr>OpID = [], Running_Status = [], StartTS = 0, Running_Name = [],
         Running_Type = []\<rparr>\<rparr>,
      Some \<lparr>Msg = ''stderr: Error: mongo: no documents in result'',
        Status_reason = StatusReasonUnknown\<rparr>) = (False, None) \<and>
   \<not> (\<exists>a b. err_Error \<lparr>Msg = ''stderr: connection refused'',
              Status_reason = StatusReasonUnknown\<rparr> = a @ ''no documents in result'' @ b) \<and>
   HasRunningOperation
     (\<lparr>PITRChunks_Chunks = [], PITR_Conf = False, PITR_Run = False, PITR_Error = [],
       Status_Running = \<lparr>OpID = [], Running_Status = [], StartTS = 0, Running_Name = [],
         Running_Type = []\<rparr>\<rparr>,
      Some \<lparr>Msg = ''stderr: connection refused'', Status_reason = StatusReasonUnknown\<rparr>)
   = (False, Some \<lparr>Msg = ''stderr: connection refused'', Status_reason = StatusReasonUnknown\<rparr>)"
proof -
  have h1: "\<exists>a b. err_Error \<lparr>Msg = ''stderr: Error: mongo: no documents in result'',
              Status_reason = StatusReasonUnknown\<rparr> = a @ ''mongo: no documents in result'' @ b"
    unfolding strings_Contains_iff [symmetric] by (simp add: err_Error_def strings_Contains_def)
  have h2: "\<not> (\<exists>a b. err_Error \<lparr>Msg = ''stderr: connection refused'',
              Status_reason = StatusReasonUnknown\<rparr> = a @ ''no documents in result'' @ b)"
    unfolding strings_Contains_iff [symmetric] by (simp add: err_Error_def strings_Contains_def)
  show ?thesis
    using h1 h2
      HasRunningOperation_not_configured [of "\<lparr>Msg = ''stderr: Error: mongo: no documents in result'',
        Status_reason = StatusReasonUnknown\<rparr>"]
      HasRunningOperation_not_configured [of "\<lparr>Msg = ''stderr: connection refused'',
        Status_reason = StatusReasonUnknown\<rparr>"]
    by blast
qed

section \<open>Backup resolution\<close>

lemma PBMName_of_Split:
  fixes dest :: string
  defines "s \<equiv> strings_Split dest ''/''"
  shows "s \<noteq> [] \<and> CHR ''/'' \<notin> set (s ! (length s - 1)) \<and>
     (if CHR ''/'' \<in> set dest then \<exists>pre. dest = pre @ ''/'' @ s ! (length s - 1)
      else s ! (length s - 1) = dest)"
proof -
  have ne: "s \<noteq> []" unfolding s_def by (rule strings_Split_not_empty) simp
  then have "s ! (length s - 1) = last s" by (simp add: last_conv_nth)
  also have "\<dots> = rev (takeWhile (\<lambda>x. x \<noteq> CHR ''/'') (rev dest))"
    unfolding s_def by (rule last_strings_Split)
  finally have "s ! (length s - 1) = rev (takeWhile (\<lambda>x. x \<noteq> CHR ''/'') (rev dest))" .
  from after_last_char [OF this] ne show ?thesis by (auto split: if_splits)
qed

text \<open>
  C10: with an empty backup name and an inline backup source, \<^verbatim>\<open>getBackup\<close> (in both
  versions of the controller) returns, without panic or error, a backup in state Ready whose agent-side
  name contains no slash and is what follows the last slash of the destination, or the
  whole destination when it has no slash (the empty one included); the split of the
  destination is never empty.
\<close>

theorem getBackup_synthesized:
  assumes "BackupName (Spec cr) = []" and "BackupSource (Spec cr) = Some src"
  shows "(\<exists>bcp. getBackup client_Get cr = Returns (bcp, None) \<and>
            Backup_State (Backup_Status bcp) = BackupStateReady \<and>
            CHR ''/'' \<notin> set (PBMName (Backup_Status bcp)) \<and>
            (if CHR ''/'' \<in> set (Destination src)
             then \<exists>pre. Destination src = pre @ ''/'' @ PBMName (Backup_Status bcp)
             else PBMName (Backup_Status bcp) = Destination src)) \<and>
         (\<exists>bcp. getBackup2 client_Get cr = Returns (bcp, None) \<and>
            Backup_State (Backup_Status bcp) = BackupStateReady \<and>
            CHR ''/'' \<notin> set (PBMName (Backup_Status bcp)) \<and>
            (if CHR ''/'' \<in> set (Destination src)
             then \<exists>pre. Destination src = pre @ ''/'' @ PBMName (Backup_Status bcp)
             else PBMName (Backup_Status bcp) = Destination src)) \<and>
         strings_Split (Destination src) ''/'' \<noteq> []"
  using assms PBMName_of_Split [of "Destination src"]
  by (auto simp: getBackup_def getBackup2_def Let_def split: if_splits)

theorem getBackup_synthesized_witness:
  "BackupName (Spec (sample_restore\<lparr>Spec := (Spec sample_restore)\<lparr>BackupName := [],
      BackupSource := Some sample_source\<rparr>\<rparr>)) = [] \<and>
   BackupSource (Spec (sample_restore\<lparr>Spec := (Spec sample_restore)\<lparr>BackupName := [],
      BackupSource := Some sample_source\<rparr>\<rparr>)) = Some sample_source \<and>
   (\<exists>bcp. getBackup sample_store (sample_restore\<lparr>Spec := (Spec sample_restore)\<lparr>BackupName := [],
      BackupSource := Some sample_source\<rparr>\<rparr>) = Returns (bcp, None) \<and>
      Backup_State (Backup_Status bcp) = BackupStateReady \<and>
      CHR ''/'' \<notin> set (PBMName (Backup_Status bcp)) \<and>
      (\<exists>pre. Destination sample_source = pre @ ''/'' @ PBMName (Backup_Status bcp))) \<and>
   strings_Split (Destination sample_source) ''/'' =
     [''s3:'', [], ''bucket'', ''2023-11-14T22:13:20Z'']"
proof -
  let ?cr = "sample_restore\<lparr>Spec := (Spec sample_restore)\<lparr>BackupName := [],
      BackupSource := Some sample_source\<rparr>\<rparr>"
  have h1: "BackupName (Spec ?cr) = []" by simp
  have h2: "BackupSource (Spec ?cr) = Some sample_source" by simp
  have sl: "CHR ''/'' \<in> set (Destination sample_source)" by (simp add: sample_source_def)
  have sp: "strings_Split (Destination sample_source) ''/'' =
     [''s3:'', [], ''bucket'', ''2023-11-14T22:13:20Z'']"
    by (simp add: sample_source_def strings_Split.simps)
  from getBackup_synthesized [OF h1 h2, of sample_store] sl h1 h2 sp
  show ?thesis by auto
qed

text \<open>
  C4: a request with a non-empty backup name resolves by the lookup of that name in the
  request's namespace, whatever its inline backup source is; the lookup is skipped, and the
  view synthesized, only when the name is empty and the inline source is present.
\<close>

theorem getBackup_named_backup_wins:
  "(BackupName (Spec cr) \<noteq> [] \<or> BackupSource (Spec cr) = None \<longrightarrow>
      getBackup client_Get cr =
        Returns (case client_Get \<lparr>Key_Name = BackupName (Spec cr), Key_Namespace = Namespace cr\<rparr> of
                   Inl err \<Rightarrow> (zero_Backup, Some err) | Inr backup \<Rightarrow> (backup, None)) \<and>
      getBackup2 client_Get cr =
        Returns (case client_Get \<lparr>Key_Name = BackupName (Spec cr), Key_Namespace = Namespace cr\<rparr> of
                   Inl err \<Rightarrow> (zero_Backup, Some err) | Inr backup \<Rightarrow> (backup, None))) \<and>
   (BackupName (Spec cr) \<noteq> [] \<longrightarrow>
      getBackup client_Get (cr\<lparr>Spec := (Spec cr)\<lparr>BackupSource := src\<rparr>\<rparr>) = getBackup client_Get cr \<and>
      getBackup2 client_Get (cr\<lparr>Spec := (Spec cr)\<lparr>BackupSource := src\<rparr>\<rparr>) = getBackup2 client_Get cr)"
  by (auto simp: getBackup_def getBackup2_def split: sum.splits option.splits)

theorem getBackup_named_backup_wins_witness:
  "BackupName (Spec (sample_restore\<lparr>Spec := (Spec sample_restore)\<lparr>BackupSource :=
      Some sample_source\<rparr>\<rparr>)) \<noteq> [] \<and>
   BackupSource (Spec (sample_restore\<lparr>Spec := (Spec sample_restore)\<lparr>BackupSource :=
      Some sample_source\<rparr>\<rparr>)) \<noteq> None \<and>
   getBackup sample_store (sample_restore\<lparr>Spec := (Spec sample_restore)\<lparr>BackupSource :=
      Some sample_source\<rparr>\<rparr>) = Returns (sample_backup, None) \<and>
   getBackup2 sample_store (sample_restore\<lparr>Spec := (Spec sample_restore)\<lparr>BackupSource :=
      Some sample_source\<rparr>\<rparr>) = Returns (sample_backup, None) \<and>
   getBackup sample_store (sample_restore\<lparr>Spec := (Spec sample_restore)\<lparr>BackupSource :=
      Some sample_source\<rparr>\<rparr>) = getBackup sample_store sample_restore"
proof -
  let ?cr = "sample_restore\<lparr>Spec := (Spec sample_restore)\<lparr>BackupSource := Some sample_source\<rparr>\<rparr>"
  have h: "BackupName (Spec ?cr) \<noteq> []" "BackupName (Spec sample_restore) \<noteq> []"
    by (simp_all add: sample_restore_def)
  have k: "sample_store \<lparr>Key_Name = BackupName (Spec ?cr), Key_Namespace = Namespace ?cr\<rparr>
      = Inr sample_backup"
    by (simp add: sample_restore_def sample_store_def)
  from getBackup_named_backup_wins [of ?cr sample_store] h(1) k
  have a: "getBackup sample_store ?cr = Returns (sample_backup, None)"
    and b: "getBackup2 sample_store ?cr = Returns (sample_backup, None)" by simp_all
  from getBackup_named_backup_wins [of sample_restore sample_store "Some sample_source"] h(2)
  have c: "getBackup sample_store ?cr = getBackup sample_store sample_restore" by simp
  from h a b c show ?thesis by simp
qed

text \<open>
  C6, as stated, at a concrete input: no storage name and an inline source with none of
  its three descriptors. Both versions of \<^verbatim>\<open>getStorage\<close> return a descriptor and no error.
\<close>

theorem getStorage_no_variant_succeeds:
  "getStorage
     (sample_restore\<lparr>Spec := \<lparr>ClusterName = ''cluster1'', BackupName = [], StorageName = [],
        BackupSource = Some (sample_source\<lparr>S3 := None, Azure := None, Filesystem := None\<rparr>)\<rparr>\<rparr>)
     sample_cluster []
   = Returns (\<lparr>Storage_Type = ''s3'',
        Storage_S3 = \<lparr>S3_Bucket = [], S3_Prefix = [], S3_CredentialsSecret = []\<rparr>,
        Storage_Azure = \<lparr>Azure_Container = [], Azure_Prefix = [], Azure_CredentialsSecret = []\<rparr>,
        Storage_Filesystem = \<lparr>Filesystem_Path = []\<rparr>\<rparr>, None) \<and>
   getStorage2
     (sample_restore\<lparr>Spec := \<lparr>ClusterName = ''cluster1'', BackupName = [], StorageName = [],
        BackupSource = Some (sample_source\<lparr>S3 := None, Azure := None, Filesystem := None\<rparr>)\<rparr>\<rparr>)
     sample_cluster []
   = Returns (\<lparr>Storage_Type = [],
        Storage_S3 = \<lparr>S3_Bucket = [], S3_Prefix = [], S3_CredentialsSecret = []\<rparr>,
        Storage_Azure = \<lparr>Azure_Container = [], Azure_Prefix = [], Azure_CredentialsSecret = []\<rparr>,
        Storage_Filesystem = \<lparr>Filesystem_Path = []\<rparr>\<rparr>, None)"
  by (simp add: getStorage_def getStorage2_def sample_source_def storage_S3_def zero_S3_def
      zero_Azure_def zero_Filesystem_def)

text \<open>
  C6, amended: when a storage name is given and the cluster has no storage of that name,
  \<^verbatim>\<open>getStorage\<close> fails with the error ``unable to get storage '<name>' '' and a zero
  descriptor; when no name is given and the inline source has none of its descriptors,
  it returns without error a descriptor whose variants are all zero (of type S3 in the
  controller with the configuration gate, of empty type in the other version).
\<close>

theorem getStorage_resolution:
  "(storageName \<noteq> [] \<and> Storages cluster storageName = None \<longrightarrow>
      getStorage cr cluster storageName =
        Returns (zero_BackupStorageSpec, Some (unable_to_get_storage storageName)) \<and>
      getStorage2 cr cluster storageName =
        Returns (zero_BackupStorageSpec, Some (unable_to_get_storage storageName)) \<and>
      err_Error (unable_to_get_storage storageName) =
        ''unable to get storage '' @ [CHR 0x27] @ storageName @ [CHR 0x27]) \<and>
   (storageName = [] \<and> BackupSource (Spec cr) = Some src \<and>
    S3 src = None \<and> Azure src = None \<and> Filesystem src = None \<longrightarrow>
      getStorage cr cluster storageName =
        Returns (zero_BackupStorageSpec\<lparr>Storage_Type := storage_S3\<rparr>, None) \<and>
      getStorage2 cr cluster storageName = Returns (zero_BackupStorageSpec, None))"
  by (simp add: getStorage_def getStorage2_def zero_BackupStorageSpec_def
      unable_to_get_storage_def errors_New_def err_Error_def)

theorem getStorage_resolution_witness:
  "Storages sample_cluster ''gcs'' = None \<and>
   getStorage sample_restore sample_cluster ''gcs'' =
     Returns (zero_BackupStorageSpec,
       Some \<lparr>Msg = ''unable to get storage '' @ [CHR 0x27] @ ''gcs'' @ [CHR 0x27],
         Status_reason = StatusReasonUnknown\<rparr>) \<and>
   BackupSource (Spec (sample_restore\<lparr>Spec := (Spec sample_restore)\<lparr>BackupSource :=
     Some (sample_source\<lparr>S3 := None\<rparr>)\<rparr>\<rparr>)) = Some (sample_source\<lparr>S3 := None\<rparr>) \<and>
   getStorage2 (sample_restore\<lparr>Spec := (Spec sample_restore)\<lparr>BackupSource :=
     Some (sample_source\<lparr>S3 := None\<rparr>)\<rparr>\<rparr>) sample_cluster [] = Returns (zero_BackupStorageSpec, None)"
proof -
  let ?cr = "sample_restore\<lparr>Spec := (Spec sample_restore)\<lparr>BackupSource :=
     Some (sample_source\<lparr>S3 := None\<rparr>)\<rparr>\<rparr>"
  have h1: "''gcs'' \<noteq> [] \<and> Storages sample_cluster ''gcs'' = None"
    by (simp add: sample_cluster_def)
  have h2: "[] = ([]::string) \<and> BackupSource (Spec ?cr) = Some (sample_source\<lparr>S3 := None\<rparr>) \<and>
      S3 (sample_source\<lparr>S3 := None\<rparr>) = None \<and> Azure (sample_source\<lparr>S3 := None\<rparr>) = None \<and>
      Filesystem (sample_source\<lparr>S3 := None\<rparr>) = None"
    by (simp add: sample_source_def)
  from getStorage_resolution [of "''gcs''" sample_cluster sample_restore] h1
  have a: "getStorage sample_restore sample_cluster ''gcs'' =
     Returns (zero_BackupStorageSpec, Some (unable_to_get_storage ''gcs''))" by blast
  from getStorage_resolution [of "[]" sample_cluster ?cr "sample_source\<lparr>S3 := None\<rparr>"] h2
  have b: "getStorage2 ?cr sample_cluster [] = Returns (zero_BackupStorageSpec, None)" by blast
  from h1 h2 a b show ?thesis
    by (simp add: unable_to_get_storage_def errors_New_def)
qed

section \<open>The status writer\<close>

lemma retry_OnError_backoff_always:
  "retry_OnError backoff (\<lambda>e. True) fn =
     (case fn 0 of
        None \<Rightarrow> (None, \<lparr>Attempts = 1, Sleeps = [], lastErr = None\<rparr>)
      | Some e0 \<Rightarrow>
     (case fn 1 of
        None \<Rightarrow> (None, \<lparr>Attempts = 2, Sleeps = [500], lastErr = Some e0\<rparr>)
      | Some e1 \<Rightarrow>
     (case fn 2 of
        None \<Rightarrow> (None, \<lparr>Attempts = 3, Sleeps = [500, 2500], lastErr = Some e1\<rparr>)
      | Some e2 \<Rightarrow>
     (case fn 3 of
        None \<Rightarrow> (None, \<lparr>Attempts = 4, Sleeps = [500, 2500, 12500], lastErr = Some e2\<rparr>)
      | Some e3 \<Rightarrow>
     (case fn 4 of
        None \<Rightarrow> (None, \<lparr>Attempts = 5, Sleeps = [500, 2500, 12500, 62500], lastErr = Some e3\<rparr>)
      | Some e4 \<Rightarrow>
          (Some e4, \<lparr>Attempts = 5, Sleeps = [500, 2500, 12500, 62500], lastErr = Some e4\<rparr>))))))"
  by (simp add: retry_OnError_def retry_OnError_loop.simps backoff_def Backoff_Step_def
      retry_start_def numeral_2_eq_2 [symmetric] split: option.splits)

lemma updateStatus_retry_attempts:
  "Attempts (snd (updateStatus_retry api cr)) \<le> 5 \<and>
   1 \<le> Attempts (snd (updateStatus_retry api cr)) \<and>
   Sleeps (snd (updateStatus_retry api cr)) =
     take (Attempts (snd (updateStatus_retry api cr)) - 1) [500, 2500, 12500, 62500]"
  by (simp add: updateStatus_retry_def retry_OnError_backoff_always split: option.splits)

lemma updateStatus_success_iff:
  "updateStatus api cr = None \<longleftrightarrow>
     (\<exists>i<5. updateStatus_fn api cr i = None) \<or> IsNotFound (updateStatus_fn api cr 4)"
proof -
  have five: "(\<exists>i<5. P i) \<longleftrightarrow> P 0 \<or> P 1 \<or> P 2 \<or> P 3 \<or> P (4::nat)" for P
  proof -
    have "i < 5 \<longleftrightarrow> i = 0 \<or> i = 1 \<or> i = 2 \<or> i = 3 \<or> i = 4" for i :: nat by arith
    then show ?thesis by auto
  qed
  show ?thesis
    unfolding five
    by (auto simp: updateStatus_def updateStatus_retry_def retry_OnError_backoff_always
        IsNotFound_def errors_Wrap_def Let_def split: option.splits)
qed

text \<open>
  C5, as stated, at a concrete input: the first read of the first attempt finds no object,
  the object is read at the four later attempts and each of their updates meets a
  conflict. \<^verbatim>\<open>updateStatus\<close> then returns the wrapped conflict, not success.
\<close>

theorem updateStatus_not_found_then_conflicts:
  "updateStatus_fn
     (scripted_api (\<lambda>i. if i = 0 then Some not_found else None) (\<lambda>i. Some conflict) sample_restore)
     sample_restore 0 = Some not_found \<and>
   IsNotFound (Some not_found) \<and>
   updateStatus
     (scripted_api (\<lambda>i. if i = 0 then Some not_found else None) (\<lambda>i. Some conflict) sample_restore)
     sample_restore
   = Some \<lparr>Msg = ''write status: the object has been modified; please apply your changes to the latest version and try again'',
       Status_reason = StatusReasonConflict\<rparr>"
  by (simp add: updateStatus_def updateStatus_retry_def retry_OnError_backoff_always
      updateStatus_fn_def scripted_api_def not_found_def conflict_def IsNotFound_def
      errors_Wrap_def err_Error_def)

text \<open>
  C5, amended: \<^verbatim>\<open>updateStatus\<close> makes at most 5 attempts, sleeping 500ms, 2500ms, 12500ms
  and 62500ms (each lengthened by a jitter of at most 10 percent) between them. Two
  conflicts followed by a successful verified write return success after exactly 3
  attempts; 5 consecutive conflicts return the fifth one, wrapped. The result is success
  exactly when one of the attempts succeeds or the error of the fifth attempt is
  ``not found'': an object that is not found at the fifth attempt (in particular at every
  attempt) gives success after 5 attempts, and ``not found'' at an earlier attempt is
  retried like any other error.
\<close>

theorem updateStatus_retry_policy:
  "Steps backoff = 5 \<and> Duration backoff = 500 \<and> Factor backoff = 5 \<and> Jitter_percent backoff = 10 \<and>
   Attempts (snd (updateStatus_retry api cr)) \<le> 5 \<and>
   Sleeps (snd (updateStatus_retry api cr)) =
     take (Attempts (snd (updateStatus_retry api cr)) - 1) [500, 2500, 12500, 62500] \<and>
   ((\<exists>e0 e1. updateStatus_fn api cr 0 = Some e0 \<and> IsConflict e0 \<and>
        updateStatus_fn api cr 1 = Some e1 \<and> IsConflict e1) \<and>
      updateStatus_fn api cr 2 = None \<longrightarrow>
        updateStatus api cr = None \<and> Attempts (snd (updateStatus_retry api cr)) = 3) \<and>
   ((\<forall>i<5. \<exists>e. updateStatus_fn api cr i = Some e \<and> IsConflict e) \<longrightarrow>
        updateStatus api cr = errors_Wrap (updateStatus_fn api cr 4) ''write status'' \<and>
        updateStatus api cr \<noteq> None \<and> Attempts (snd (updateStatus_retry api cr)) = 5) \<and>
   (updateStatus api cr = None \<longleftrightarrow>
      (\<exists>i<5. updateStatus_fn api cr i = None) \<or> IsNotFound (updateStatus_fn api cr 4)) \<and>
   ((\<forall>i<5. updateStatus_fn api cr i \<noteq> None) \<and> IsNotFound (updateStatus_fn api cr 4) \<longrightarrow>
        updateStatus api cr = None \<and> Attempts (snd (updateStatus_retry api cr)) = 5)"
proof -
  have params: "Steps backoff = 5 \<and> Duration backoff = 500 \<and> Factor backoff = 5 \<and>
      Jitter_percent backoff = 10"
    by (simp add: backoff_def)
  have two: "updateStatus api cr = None \<and> Attempts (snd (updateStatus_retry api cr)) = 3"
    if "updateStatus_fn api cr 0 = Some e0" "updateStatus_fn api cr 1 = Some e1"
      "updateStatus_fn api cr 2 = None" for e0 e1
    using that
    by (simp add: updateStatus_def updateStatus_retry_def retry_OnError_backoff_always
        IsNotFound_def errors_Wrap_def)
  have all5: "fst (updateStatus_retry api cr) = updateStatus_fn api cr 4 \<and>
      Attempts (snd (updateStatus_retry api cr)) = 5"
    if "\<forall>i<5. updateStatus_fn api cr i \<noteq> None"
  proof -
    from that have "updateStatus_fn api cr 0 \<noteq> None" "updateStatus_fn api cr 1 \<noteq> None"
      "updateStatus_fn api cr 2 \<noteq> None" "updateStatus_fn api cr 3 \<noteq> None"
      "updateStatus_fn api cr 4 \<noteq> None" by simp_all
    then show ?thesis
      by (auto simp: updateStatus_retry_def retry_OnError_backoff_always)
  qed
  have five: "updateStatus api cr = errors_Wrap (updateStatus_fn api cr 4) ''write status'' \<and>
      updateStatus api cr \<noteq> None \<and> Attempts (snd (updateStatus_retry api cr)) = 5"
    if h: "\<forall>i<5. \<exists>e. updateStatus_fn api cr i = Some e \<and> IsConflict e"
  proof -
    from h have "\<forall>i<5. updateStatus_fn api cr i \<noteq> None" by auto
    from all5 [OF this] have r: "fst (updateStatus_retry api cr) = updateStatus_fn api cr 4"
      and a: "Attempts (snd (updateStatus_retry api cr)) = 5" by simp_all
    have "(4::nat) < 5" by simp
    with h obtain e where e: "updateStatus_fn api cr 4 = Some e" "IsConflict e" by blast
    with r a show ?thesis
      by (simp add: updateStatus_def IsNotFound_def IsConflict_def errors_Wrap_def)
  qed
  have nf: "updateStatus api cr = None \<and> Attempts (snd (updateStatus_retry api cr)) = 5"
    if "\<forall>i<5. updateStatus_fn api cr i \<noteq> None" "IsNotFound (updateStatus_fn api cr 4)"
    using all5 [OF that(1)] that(2) by (simp add: updateStatus_def)
  from params two five nf updateStatus_retry_attempts [of api cr] updateStatus_success_iff [of api cr]
  show ?thesis by blast
qed

theorem updateStatus_retry_policy_witness:
  "updateStatus_fn (scripted_api (\<lambda>i. None) (\<lambda>i. if i < 2 then Some conflict else None) sample_restore)
     sample_restore 0 = Some conflict \<and>
   updateStatus_fn (scripted_api (\<lambda>i. None) (\<lambda>i. if i < 2 then Some conflict else None) sample_restore)
     sample_restore 1 = Some conflict \<and>
   IsConflict conflict \<and>
   updateStatus_fn (scripted_api (\<lambda>i. None) (\<lambda>i. if i < 2 then Some conflict else None) sample_restore)
     sample_restore 2 = None \<and>
   updateStatus (scripted_api (\<lambda>i. None) (\<lambda>i. if i < 2 then Some conflict else None) sample_restore)
     sample_restore = None \<and>
   Attempts (snd (updateStatus_retry
     (scripted_api (\<lambda>i. None) (\<lambda>i. if i < 2 then Some conflict else None) sample_restore)
     sample_restore)) = 3 \<and>
   updateStatus (scripted_api (\<lambda>i. None) (\<lambda>i. Some conflict) sample_restore) sample_restore \<noteq> None \<and>
   Attempts (snd (updateStatus_retry (scripted_api (\<lambda>i. None) (\<lambda>i. Some conflict) sample_restore)
     sample_restore)) = 5 \<and>
   IsNotFound (updateStatus_fn (scripted_api (\<lambda>i. Some not_found) (\<lambda>i. None) sample_restore)
     sample_restore 4) \<and>
   updateStatus (scripted_api (\<lambda>i. Some not_found) (\<lambda>i. None) sample_restore) sample_restore = None \<and>
   Attempts (snd (updateStatus_retry (scripted_api (\<lambda>i. Some not_found) (\<lambda>i. None) sample_restore)
     sample_restore)) = 5"
proof -
  let ?two = "scripted_api (\<lambda>i. None) (\<lambda>i. if i < 2 then Some conflict else None) sample_restore"
  let ?five = "scripted_api (\<lambda>i. None) (\<lambda>i. Some conflict) sample_restore"
  let ?gone = "scripted_api (\<lambda>i. Some not_found) (\<lambda>i. None) sample_restore"
  have c: "IsConflict conflict" by (simp add: IsConflict_def conflict_def)
  have t: "updateStatus_fn ?two sample_restore 0 = Some conflict"
    "updateStatus_fn ?two sample_restore 1 = Some conflict"
    "updateStatus_fn ?two sample_restore 2 = None"
    by (simp_all add: updateStatus_fn_def scripted_api_def)
  have f: "\<forall>i<5. \<exists>e. updateStatus_fn ?five sample_restore i = Some e \<and> IsConflict e"
    using c by (simp add: updateStatus_fn_def scripted_api_def)
  have g: "\<forall>i<5. updateStatus_fn ?gone sample_restore i \<noteq> None"
    "IsNotFound (updateStatus_fn ?gone sample_restore 4)"
    by (simp_all add: updateStatus_fn_def scripted_api_def IsNotFound_def not_found_def)
  from updateStatus_retry_policy [of ?two sample_restore] c t
  have 1: "updateStatus ?two sample_restore = None \<and>
      Attempts (snd (updateStatus_retry ?two sample_restore)) = 3" by blast
  from updateStatus_retry_policy [of ?five sample_restore] f
  have 2: "updateStatus ?five sample_restore \<noteq> None \<and>
      Attempts (snd (updateStatus_retry ?five sample_restore)) = 5" by blast
  from updateStatus_retry_policy [of ?gone sample_restore] g
  have 3: "updateStatus ?gone sample_restore = None \<and>
      Attempts (snd (updateStatus_retry ?gone sample_restore)) = 5" by blast
  from c t g(2) 1 2 3 show ?thesis by blast
qed

lemma retry_attempts_same:
  assumes "\<forall>i. (f i = None) = (g i = None)"
  shows "Attempts (snd (retry_OnError backoff (\<lambda>e. True) f)) =
           Attempts (snd (retry_OnError backoff (\<lambda>e. True) g)) \<and>
         Sleeps (snd (retry_OnError backoff (\<lambda>e. True) f)) =
           Sleeps (snd (retry_OnError backoff (\<lambda>e. True) g))"
proof -
  from assms have "(f 0 = None) = (g 0 = None)" "(f 1 = None) = (g 1 = None)"
    "(f 2 = None) = (g 2 = None)" "(f 3 = None) = (g 3 = None)" "(f 4 = None) = (g 4 = None)"
    by blast+
  then show ?thesis
    by (auto simp: retry_OnError_backoff_always split: option.splits)
qed

lemma retry_first_success:
  assumes "i < 5" and "\<forall>j<i. fn j \<noteq> None" and "fn i = None"
  shows "fst (retry_OnError backoff (\<lambda>e. True) fn) = None \<and>
         Attempts (snd (retry_OnError backoff (\<lambda>e. True) fn)) = Suc i"
proof -
  from assms(1) consider "i = 0" | "i = 1" | "i = 2" | "i = 3" | "i = 4" by arith
  then show ?thesis
  proof cases
    case 1
    with assms(3) show ?thesis by (simp add: retry_OnError_backoff_always)
  next
    case 2
    with assms(2) have "fn 0 \<noteq> None" by simp
    with 2 assms(3) show ?thesis by (auto simp: retry_OnError_backoff_always)
  next
    case 3
    with assms(2) have "fn 0 \<noteq> None" "fn 1 \<noteq> None" by simp_all
    with 3 assms(3) show ?thesis by (auto simp: retry_OnError_backoff_always)
  next
    case 4
    with assms(2) have "fn 0 \<noteq> None" "fn 1 \<noteq> None" "fn 2 \<noteq> None" by simp_all
    with 4 assms(3) show ?thesis by (auto simp: retry_OnError_backoff_always)
  next
    case 5
    with assms(2) have "fn 0 \<noteq> None" "fn 1 \<noteq> None" "fn 2 \<noteq> None" "fn 3 \<noteq> None"
      by simp_all
    with 5 assms(3) show ?thesis by (auto simp: retry_OnError_backoff_always)
  qed
qed

text \<open>
  C9: the check after the write reads only the state. When, in an attempt, both reads and
  the update succeed and the object read back has the intended state, the attempt
  succeeds whatever the error text, the conditions and the other status fields of that
  object are; when it is the first attempt to succeed, \<^verbatim>\<open>updateStatus\<close> returns nil and
  no attempt follows it (one attempt when it is the first).
  Every error is retried: the number of attempts and the sleeps depend only on which
  attempts fail, not on their errors, and when all attempts fail there are 5 of them.
  The state is compared: when both reads and the update succeed, the attempt succeeds
  exactly when the object read back has the intended state, and otherwise fails with
  \<^verbatim>\<open>status not updated\<close>; an error of a read or of the update is the error of the attempt.
\<close>

theorem updateStatus_verifies_state_only:
  "(api_Get api i \<lparr>Key_Name = Name cr, Key_Namespace = Namespace cr\<rparr> = Inr c \<and>
    api_Update api i (c\<lparr>Status := Status cr\<rparr>) = None \<and>
    api_Get_again api i \<lparr>Key_Name = Name cr, Key_Namespace = Namespace cr\<rparr> = Inr c' \<and>
    State (Status c') = State (Status cr) \<longrightarrow>
      updateStatus_fn api cr i = None \<and>
      (i < 5 \<and> (\<forall>j<i. updateStatus_fn api cr j \<noteq> None) \<longrightarrow>
        updateStatus api cr = None \<and> Attempts (snd (updateStatus_retry api cr)) = Suc i)) \<and>
   ((\<forall>i. (updateStatus_fn api cr i = None) = (updateStatus_fn api' cr' i = None)) \<longrightarrow>
      Attempts (snd (updateStatus_retry api cr)) = Attempts (snd (updateStatus_retry api' cr')) \<and>
      Sleeps (snd (updateStatus_retry api cr)) = Sleeps (snd (updateStatus_retry api' cr'))) \<and>
   ((\<forall>i<5. updateStatus_fn api cr i \<noteq> None) \<longrightarrow>
      Attempts (snd (updateStatus_retry api cr)) = 5 \<and>
      fst (updateStatus_retry api cr) = updateStatus_fn api cr 4) \<and>
   (api_Get api i \<lparr>Key_Name = Name cr, Key_Namespace = Namespace cr\<rparr> = Inr c \<and>
    api_Update api i (c\<lparr>Status := Status cr\<rparr>) = None \<and>
    api_Get_again api i \<lparr>Key_Name = Name cr, Key_Namespace = Namespace cr\<rparr> = Inr c' \<and>
    State (Status c') \<noteq> State (Status cr) \<longrightarrow>
      updateStatus_fn api cr i = Some (errors_New ''status not updated'')) \<and>
   (api_Get api i \<lparr>Key_Name = Name cr, Key_Namespace = Namespace cr\<rparr> = Inr c \<and>
    api_Update api i (c\<lparr>Status := Status cr\<rparr>) = None \<and>
    api_Get_again api i \<lparr>Key_Name = Name cr, Key_Namespace = Namespace cr\<rparr> = Inr c' \<longrightarrow>
      (updateStatus_fn api cr i = None) = (State (Status c') = State (Status cr))) \<and>
   (api_Get api i \<lparr>Key_Name = Name cr, Key_Namespace = Namespace cr\<rparr> = Inl e \<longrightarrow>
      updateStatus_fn api cr i = Some e) \<and>
   (api_Get api i \<lparr>Key_Name = Name cr, Key_Namespace = Namespace cr\<rparr> = Inr c \<and>
    api_Update api i (c\<lparr>Status := Status cr\<rparr>) = Some e \<longrightarrow>
      updateStatus_fn api cr i = Some e) \<and>
   (api_Get api i \<lparr>Key_Name = Name cr, Key_Namespace = Namespace cr\<rparr> = Inr c \<and>
    api_Update api i (c\<lparr>Status := Status cr\<rparr>) = None \<and>
    api_Get_again api i \<lparr>Key_Name = Name cr, Key_Namespace = Namespace cr\<rparr> = Inl e \<longrightarrow>
      updateStatus_fn api cr i = Some e)"
proof -
  have fn: "(api_Get api i \<lparr>Key_Name = Name cr, Key_Namespace = Namespace cr\<rparr> = Inr c \<and>
    api_Update api i (c\<lparr>Status := Status cr\<rparr>) = None \<and>
    api_Get_again api i \<lparr>Key_Name = Name cr, Key_Namespace = Namespace cr\<rparr> = Inr c' \<and>
    State (Status c') \<noteq> State (Status cr) \<longrightarrow>
      updateStatus_fn api cr i = Some (errors_New ''status not updated'')) \<and>
   (api_Get api i \<lparr>Key_Name = Name cr, Key_Namespace = Namespace cr\<rparr> = Inr c \<and>
    api_Update api i (c\<lparr>Status := Status cr\<rparr>) = None \<and>
    api_Get_again api i \<lparr>Key_Name = Name cr, Key_Namespace = Namespace cr\<rparr> = Inr c' \<longrightarrow>
      (updateStatus_fn api cr i = None) = (State (Status c') = State (Status cr))) \<and>
   (api_Get api i \<lparr>Key_Name = Name cr, Key_Namespace = Namespace cr\<rparr> = Inl e \<longrightarrow>
      updateStatus_fn api cr i = Some e) \<and>
   (api_Get api i \<lparr>Key_Name = Name cr, Key_Namespace = Namespace cr\<rparr> = Inr c \<and>
    api_Update api i (c\<lparr>Status := Status cr\<rparr>) = Some e \<longrightarrow>
      updateStatus_fn api cr i = Some e) \<and>
   (api_Get api i \<lparr>Key_Name = Name cr, Key_Namespace = Namespace cr\<rparr> = Inr c \<and>
    api_Update api i (c\<lparr>Status := Status cr\<rparr>) = None \<and>
    api_Get_again api i \<lparr>Key_Name = Name cr, Key_Namespace = Namespace cr\<rparr> = Inl e \<longrightarrow>
      updateStatus_fn api cr i = Some e)"
    by (simp add: updateStatus_fn_def)
  have one: "updateStatus_fn api cr i = None \<and>
      (i < 5 \<and> (\<forall>j<i. updateStatus_fn api cr j \<noteq> None) \<longrightarrow>
        updateStatus api cr = None \<and> Attempts (snd (updateStatus_retry api cr)) = Suc i)"
    if "api_Get api i \<lparr>Key_Name = Name cr, Key_Namespace = Namespace cr\<rparr> = Inr c"
      "api_Update api i (c\<lparr>Status := Status cr\<rparr>) = None"
      "api_Get_again api i \<lparr>Key_Name = Name cr, Key_Namespace = Namespace cr\<rparr> = Inr c'"
      "State (Status c') = State (Status cr)"
  proof -
    from that have f: "updateStatus_fn api cr i = None" by (simp add: updateStatus_fn_def)
    have "updateStatus api cr = None \<and> Attempts (snd (updateStatus_retry api cr)) = Suc i"
      if "i < 5" "\<forall>j<i. updateStatus_fn api cr j \<noteq> None"
      using retry_first_success [OF that f]
      by (simp add: updateStatus_def updateStatus_retry_def errors_Wrap_def)
    with f show ?thesis by simp
  qed
  have same: "Attempts (snd (updateStatus_retry api cr)) = Attempts (snd (updateStatus_retry api' cr')) \<and>
      Sleeps (snd (updateStatus_retry api cr)) = Sleeps (snd (updateStatus_retry api' cr'))"
    if "\<forall>i. (updateStatus_fn api cr i = None) = (updateStatus_fn api' cr' i = None)"
    unfolding updateStatus_retry_def by (rule retry_attempts_same [OF that])
  have all5: "Attempts (snd (updateStatus_retry api cr)) = 5 \<and>
      fst (updateStatus_retry api cr) = updateStatus_fn api cr 4"
    if "\<forall>i<5. updateStatus_fn api cr i \<noteq> None"
  proof -
    from that have "updateStatus_fn api cr 0 \<noteq> None" "updateStatus_fn api cr 1 \<noteq> None"
      "updateStatus_fn api cr 2 \<noteq> None" "updateStatus_fn api cr 3 \<noteq> None"
      "updateStatus_fn api cr 4 \<noteq> None" by simp_all
    then show ?thesis
      by (auto simp: updateStatus_retry_def retry_OnError_backoff_always)
  qed
  from one same all5 fn show ?thesis by blast
qed


theorem updateStatus_verifies_state_only_witness:
  "State (Status (sample_restore\<lparr>Status := \<lparr>State = RestoreStateError, Error = ''stale text'',
      Conditions = [], Status_rest = []\<rparr>\<rparr>))
     = State (Status (sample_restore\<lparr>Status := \<lparr>State = RestoreStateError, Error = ''get backup: not found'',
      Conditions = [\<lparr>Cond_Type = ''PBMIsConfigured'', Cond_Status = ConditionTrue,
        ObservedGeneration = 0, LastTransitionTime = Some 1700000000,
        Cond_Reason = ''PBMIsConfigured'', Cond_Message = ''PBM is configured''\<rparr>],
      Status_rest = []\<rparr>\<rparr>)) \<and>
   Error (Status (sample_restore\<lparr>Status := \<lparr>State = RestoreStateError, Error = ''stale text'',
      Conditions = [], Status_rest = []\<rparr>\<rparr>))
     \<noteq> Error (Status (sample_restore\<lparr>Status := \<lparr>State = RestoreStateError, Error = ''get backup: not found'',
      Conditions = [\<lparr>Cond_Type = ''PBMIsConfigured'', Cond_Status = ConditionTrue,
        ObservedGeneration = 0, LastTransitionTime = Some 1700000000,
        Cond_Reason = ''PBMIsConfigured'', Cond_Message = ''PBM is configured''\<rparr>],
      Status_rest = []\<rparr>\<rparr>)) \<and>
   updateStatus
     \<lparr>api_Get = (\<lambda>i key. Inr sample_restore), api_Update = (\<lambda>i c. None),
      api_Get_again = (\<lambda>i key. Inr (sample_restore\<lparr>Status := \<lparr>State = RestoreStateError,
        Error = ''stale text'', Conditions = [], Status_rest = []\<rparr>\<rparr>))\<rparr>
     (sample_restore\<lparr>Status := \<lparr>State = RestoreStateError, Error = ''get backup: not found'',
      Conditions = [\<lparr>Cond_Type = ''PBMIsConfigured'', Cond_Status = ConditionTrue,
        ObservedGeneration = 0, LastTransitionTime = Some 1700000000,
        Cond_Reason = ''PBMIsConfigured'', Cond_Message = ''PBM is configured''\<rparr>],
      Status_rest = []\<rparr>\<rparr>) = None \<and>
   Attempts (snd (updateStatus_retry
     \<lparr>api_Get = (\<lambda>i key. Inr sample_restore), api_Update = (\<lambda>i c. None),
      api_Get_again = (\<lambda>i key. Inr (sample_restore\<lparr>Status := \<lparr>State = RestoreStateError,
        Error = ''stale text'', Conditions = [], Status_rest = []\<rparr>\<rparr>))\<rparr>
     (sample_restore\<lparr>Status := \<lparr>State = RestoreStateError, Error = ''get backup: not found'',
      Conditions = [\<lparr>Cond_Type = ''PBMIsConfigured'', Cond_Status = ConditionTrue,
        ObservedGeneration = 0, LastTransitionTime = Some 1700000000,
        Cond_Reason = ''PBMIsConfigured'', Cond_Message = ''PBM is configured''\<rparr>],
      Status_rest = []\<rparr>\<rparr>))) = 1 \<and>
   \<not> IsConflict (errors_New ''connection refused'') \<and>
   Attempts (snd (updateStatus_retry
       (scripted_api (\<lambda>i. Some (errors_New ''connection refused'')) (\<lambda>i. None) sample_restore)
       sample_restore))
     = Attempts (snd (updateStatus_retry
       (scripted_api (\<lambda>i. None) (\<lambda>i. Some conflict) sample_restore) sample_restore)) \<and>
   Attempts (snd (updateStatus_retry
       (scripted_api (\<lambda>i. Some (errors_New ''connection refused'')) (\<lambda>i. None) sample_restore)
       sample_restore)) = 5 \<and>
   State (Status (sample_restore\<lparr>Status := \<lparr>State = RestoreStateNew, Error = ''get backup: not found'',
      Conditions = [], Status_rest = []\<rparr>\<rparr>))
     \<noteq> State (Status (sample_restore\<lparr>Status := \<lparr>State = RestoreStateError, Error = ''get backup: not found'',
      Conditions = [\<lparr>Cond_Type = ''PBMIsConfigured'', Cond_Status = ConditionTrue,
        ObservedGeneration = 0, LastTransitionTime = Some 1700000000,
        Cond_Reason = ''PBMIsConfigured'', Cond_Message = ''PBM is configured''\<rparr>],
      Status_rest = []\<rparr>\<rparr>)) \<and>
   updateStatus_fn
     \<lparr>api_Get = (\<lambda>i key. Inr sample_restore), api_Update = (\<lambda>i c. None),
      api_Get_again = (\<lambda>i key. Inr (sample_restore\<lparr>Status := \<lparr>State = RestoreStateNew,
        Error = ''get backup: not found'', Conditions = [], Status_rest = []\<rparr>\<rparr>))\<rparr>
     (sample_restore\<lparr>Status := \<lparr>State = RestoreStateError, Error = ''get backup: not found'',
      Conditions = [\<lparr>Cond_Type = ''PBMIsConfigured'', Cond_Status = ConditionTrue,
        ObservedGeneration = 0, LastTransitionTime = Some 1700000000,
        Cond_Reason = ''PBMIsConfigured'', Cond_Message = ''PBM is configured''\<rparr>],
      Status_rest = []\<rparr>\<rparr>) 0 = Some (errors_New ''status not updated'') \<and>
   updateStatus_fn
     (scripted_api (\<lambda>i. Some (errors_New ''connection refused'')) (\<lambda>i. None) sample_restore)
     sample_restore 0 = Some (errors_New ''connection refused'') \<and>
   updateStatus_fn (scripted_api (\<lambda>i. None) (\<lambda>i. Some conflict) sample_restore)
     sample_restore 0 = Some conflict \<and>
   updateStatus_fn
     \<lparr>api_Get = (\<lambda>i key. Inr sample_restore), api_Update = (\<lambda>i c. None),
      api_Get_again = (\<lambda>i key. Inl not_found)\<rparr>
     sample_restore 0 = Some not_found"
proof -
  let ?blind = "\<lparr>api_Get = (\<lambda>i key. Inr sample_restore), api_Update = (\<lambda>i c. None),
      api_Get_again = (\<lambda>i key. Inl not_found)\<rparr>"
  let ?unwritten = "sample_restore\<lparr>Status := \<lparr>State = RestoreStateNew,
        Error = ''get backup: not found'', Conditions = [], Status_rest = []\<rparr>\<rparr>"
  let ?read = "sample_restore\<lparr>Status := \<lparr>State = RestoreStateError, Error = ''stale text'',
      Conditions = [], Status_rest = []\<rparr>\<rparr>"
  let ?cr = "sample_restore\<lparr>Status := \<lparr>State = RestoreStateError, Error = ''get backup: not found'',
      Conditions = [\<lparr>Cond_Type = ''PBMIsConfigured'', Cond_Status = ConditionTrue,
        ObservedGeneration = 0, LastTransitionTime = Some 1700000000,
        Cond_Reason = ''PBMIsConfigured'', Cond_Message = ''PBM is configured''\<rparr>],
      Status_rest = []\<rparr>\<rparr>"
  let ?api = "\<lparr>api_Get = (\<lambda>i key. Inr sample_restore), api_Update = (\<lambda>i c. None),
      api_Get_again = (\<lambda>i key. Inr ?read)\<rparr>"
  let ?refused = "scripted_api (\<lambda>i. Some (errors_New ''connection refused'')) (\<lambda>i. None) sample_restore"
  let ?conflicts = "scripted_api (\<lambda>i. None) (\<lambda>i. Some conflict) sample_restore"
  have h: "api_Get ?api 0 \<lparr>Key_Name = Name ?cr, Key_Namespace = Namespace ?cr\<rparr> = Inr sample_restore \<and>
      api_Update ?api 0 (sample_restore\<lparr>Status := Status ?cr\<rparr>) = None \<and>
      api_Get_again ?api 0 \<lparr>Key_Name = Name ?cr, Key_Namespace = Namespace ?cr\<rparr> = Inr ?read \<and>
      State (Status ?read) = State (Status ?cr)"
    by simp
  have d: "Error (Status ?read) \<noteq> Error (Status ?cr)" by simp
  have nc: "\<not> IsConflict (errors_New ''connection refused'')"
    by (simp add: IsConflict_def errors_New_def)
  have fails: "\<forall>i. (updateStatus_fn ?refused sample_restore i = None) =
      (updateStatus_fn ?conflicts sample_restore i = None)"
    "\<forall>i<5. updateStatus_fn ?refused sample_restore i \<noteq> None"
    by (simp_all add: updateStatus_fn_def scripted_api_def)
  from updateStatus_verifies_state_only [of ?api 0 ?cr sample_restore ?read] h
  have 1: "updateStatus ?api ?cr = None \<and> Attempts (snd (updateStatus_retry ?api ?cr)) = 1"
    by simp
  from updateStatus_verifies_state_only [of ?refused _ sample_restore _ _ ?conflicts sample_restore] fails
  have 2: "Attempts (snd (updateStatus_retry ?refused sample_restore)) =
      Attempts (snd (updateStatus_retry ?conflicts sample_restore))"
    "Attempts (snd (updateStatus_retry ?refused sample_restore)) = 5"
    by blast+
  let ?lost = "\<lparr>api_Get = (\<lambda>i key. Inr sample_restore), api_Update = (\<lambda>i c. None),
      api_Get_again = (\<lambda>i key. Inr ?unwritten)\<rparr>"
  have h': "api_Get ?lost 0 \<lparr>Key_Name = Name ?cr, Key_Namespace = Namespace ?cr\<rparr> = Inr sample_restore \<and>
      api_Update ?lost 0 (sample_restore\<lparr>Status := Status ?cr\<rparr>) = None \<and>
      api_Get_again ?lost 0 \<lparr>Key_Name = Name ?cr, Key_Namespace = Namespace ?cr\<rparr> = Inr ?unwritten \<and>
      State (Status ?unwritten) \<noteq> State (Status ?cr)"
    by simp
  from updateStatus_verifies_state_only [of ?lost 0 ?cr sample_restore ?unwritten] h'
  have 3: "updateStatus_fn ?lost ?cr 0 = Some (errors_New ''status not updated'')"
    by blast
  from h' have 4: "State (Status ?unwritten) \<noteq> State (Status ?cr)" by blast
  have k1: "api_Get ?refused 0
      \<lparr>Key_Name = Name sample_restore, Key_Namespace = Namespace sample_restore\<rparr> =
      Inl (errors_New ''connection refused'')"
    by (simp add: scripted_api_def)
  have k2: "api_Get ?conflicts 0
      \<lparr>Key_Name = Name sample_restore, Key_Namespace = Namespace sample_restore\<rparr> =
      Inr sample_restore \<and>
      api_Update ?conflicts 0 (sample_restore\<lparr>Status := Status sample_restore\<rparr>) = Some conflict"
    by (simp add: scripted_api_def)
  have k3: "api_Get ?blind 0
      \<lparr>Key_Name = Name sample_restore, Key_Namespace = Namespace sample_restore\<rparr> =
      Inr sample_restore \<and>
      api_Update ?blind 0 (sample_restore\<lparr>Status := Status sample_restore\<rparr>) = None \<and>
      api_Get_again ?blind 0
      \<lparr>Key_Name = Name sample_restore, Key_Namespace = Namespace sample_restore\<rparr> =
      Inl not_found"
    by simp
  from updateStatus_verifies_state_only [of ?refused 0 sample_restore _ _ _ _
      "errors_New ''connection refused''"] k1
  have 5: "updateStatus_fn ?refused sample_restore 0 = Some (errors_New ''connection refused'')"
    by blast
  from updateStatus_verifies_state_only [of ?conflicts 0 sample_restore sample_restore _ _ _ conflict] k2
  have 6: "updateStatus_fn ?conflicts sample_restore 0 = Some conflict"
    by blast
  from updateStatus_verifies_state_only [of ?blind 0 sample_restore sample_restore _ _ _ not_found] k3
  have 7: "updateStatus_fn ?blind sample_restore 0 = Some not_found"
    by blast
  from h d nc 1 2 3 4 5 6 7 show ?thesis by blast
qed

section \<open>Terminal states\<close>










section \<open>The configuration gate\<close>

lemma leave_fields [simp]:
  "Returned (leave env cr status err ret effects) = ret"
  "Effects (leave env cr status err ret effects) = effects"
  "Persisted (leave env cr status err ret effects) = fst (finalize (status_api env) cr status err)"
  by (simp_all add: leave_def split: prod.splits)











section \<open>Synchronizing the configuration artifact\<close>

lemma CreateOrUpdateConfig_existing:
  assumes "GenerateConfig env cr stg = (cnf, None)"
    and "yaml_Marshal env cnf = Inr cnfBytes"
    and "secret_Get env \<lparr>Key_Name = Cluster_Name cr @ ''-pbm-config'',
           Key_Namespace = Cluster_Namespace cr\<rparr> = Inr secret"
  shows "(config_yaml secret = Some cnfBytes \<longrightarrow>
            CreateOrUpdateConfig env cr stg = (Returns None, [])) \<and>
         (config_yaml secret \<noteq> Some cnfBytes \<and> Data secret = Some d \<longrightarrow>
            CreateOrUpdateConfig env cr stg =
              (Returns (errors_Wrap
                 (secret_Update env
                    (secret\<lparr>Annotations := Some
                        (((case Annotations secret of None \<Rightarrow> Map.empty | Some a \<Rightarrow> a)
                           (''percona.com/config-applied'' := None))
                           (''percona.com/config-sum'' \<mapsto> sha256_hex env cnfBytes)),
                      Data := Some (d(''config.yaml'' \<mapsto> cnfBytes))\<rparr>))
                 ''update secret''),
               [Update
                  (secret\<lparr>Annotations := Some
                      (((case Annotations secret of None \<Rightarrow> Map.empty | Some a \<Rightarrow> a)
                         (''percona.com/config-applied'' := None))
                         (''percona.com/config-sum'' \<mapsto> sha256_hex env cnfBytes)),
                    Data := Some (d(''config.yaml'' \<mapsto> cnfBytes))\<rparr>)])) \<and>
         (config_yaml secret \<noteq> Some cnfBytes \<and> Data secret = None \<longrightarrow>
            CreateOrUpdateConfig env cr stg = (Panics, []))"
  using assms by (simp add: CreateOrUpdateConfig_def Let_def)

text \<open>
  C7 at a concrete input: the configuration secret exists but has no data (its data map
  is nil). The rendered bytes differ from the stored entry, which reads as nil, and the
  assignment \<^verbatim>\<open>secret.Data["config.yaml"] = cnfBytes\<close> panics: nothing is written, although
  the same function guards the nil annotations map two lines above.
\<close>

theorem CreateOrUpdateConfig_empty_secret_panics:
  "config_yaml empty_secret \<noteq> Some ''pitr: {}'' \<and>
   CreateOrUpdateConfig (sample_config_env (Inr empty_secret)) sample_cluster
     (zero_BackupStorageSpec\<lparr>Storage_Type := ''filesystem''\<rparr>) = (Panics, []) \<and>
   CreateOrUpdateConfig (sample_config_env (Inr applied_secret)) sample_cluster
     (zero_BackupStorageSpec\<lparr>Storage_Type := ''filesystem''\<rparr>) =
     (Returns None,
      [Update \<lparr>Secret_Name = ''cluster1-pbm-config'', Secret_Namespace = ''psmdb'',
         Annotations = Some [''percona.com/config-sum'' \<mapsto> ''sum of pitr: {}''],
         Data = Some [''config.yaml'' \<mapsto> ''pitr: {}'']\<rparr>])"
proof -
  let ?stg = "zero_BackupStorageSpec\<lparr>Storage_Type := ''filesystem''\<rparr>"
  have g: "\<exists>cnf. GenerateConfig (sample_config_env got) sample_cluster ?stg = (cnf, None)" for got
    by (simp add: GenerateConfig_def Let_def zero_BackupStorageSpec_def storage_S3_def
        storage_Azure_def)
  have y: "yaml_Marshal (sample_config_env got) cnf = Inr ''pitr: {}''" for got cnf
    by (simp add: sample_config_env_def)
  have k: "secret_Get (sample_config_env got) key = got" for got key
    by (simp add: sample_config_env_def)
  have e: "config_yaml empty_secret \<noteq> Some ''pitr: {}''" "Data empty_secret = None"
    by (simp_all add: config_yaml_def empty_secret_def)
  have a: "config_yaml applied_secret \<noteq> Some ''pitr: {}''"
    "Data applied_secret = Some [''config.yaml'' \<mapsto> ''pitr: {enabled: true}'']"
    by (simp_all add: config_yaml_def applied_secret_def)
  from g obtain cnf where c: "GenerateConfig (sample_config_env (Inr empty_secret)) sample_cluster ?stg
      = (cnf, None)" by blast
  from CreateOrUpdateConfig_existing [OF c y k] e
  have 1: "CreateOrUpdateConfig (sample_config_env (Inr empty_secret)) sample_cluster ?stg
      = (Panics, [])" by blast
  from g obtain cnf' where c': "GenerateConfig (sample_config_env (Inr applied_secret)) sample_cluster ?stg
      = (cnf', None)" by blast
  from CreateOrUpdateConfig_existing [OF c' y k, of "[''config.yaml'' \<mapsto> ''pitr: {enabled: true}'']"] a
  have 2: "CreateOrUpdateConfig (sample_config_env (Inr applied_secret)) sample_cluster ?stg =
     (Returns None,
      [Update \<lparr>Secret_Name = ''cluster1-pbm-config'', Secret_Namespace = ''psmdb'',
         Annotations = Some [''percona.com/config-sum'' \<mapsto> ''sum of pitr: {}''],
         Data = Some [''config.yaml'' \<mapsto> ''pitr: {}'']\<rparr>])"
    by (simp add: applied_secret_def sample_config_env_def errors_Wrap_def fun_upd_twist)
  from e(1) 1 2 show ?thesis by blast
qed

section \<open>Formatting the end of the latest chunk\<close>

text \<open>The absolute seconds of an epoch second: the sum wraps, and does not when the second is
  not before the absolute zero.\<close>

lemma Time_abs_time_Unix: "Time_abs (time_Unix sec) = unat (sec + 9223372028715321600)"
  by (simp add: Time_abs_def time_Unix_def unixToInternal_def internalToAbsolute_def)

lemma Time_abs_no_wrap:
  assumes "- 9223372028715321600 \<le> sint sec"
  shows "Time_abs (time_Unix sec) = nat (sint sec + 9223372028715321600)"
proof -
  define t where "t = sint sec"
  have sec: "sec = word_of_int t" by (simp add: t_def)
  have hi: "t < 2 ^ 63" using sint_lt [of sec] by (simp add: t_def)
  from assms have lo: "0 \<le> t + 9223372028715321600" by (simp add: t_def)
  from hi have hi': "t + 9223372028715321600 < 2 ^ 64" by simp
  have "sec + 9223372028715321600 = word_of_int (t + 9223372028715321600)"
    by (simp add: sec)
  then have "unat (sec + 9223372028715321600) = nat (take_bit 64 (t + 9223372028715321600))"
    by (simp add: unat_eq_nat_uint uint_word_of_int_eq del: of_int_add)
  also have "take_bit 64 (t + 9223372028715321600) = t + 9223372028715321600"
    using lo hi' by (simp add: take_bit_int_eq_self)
  finally show ?thesis by (simp add: Time_abs_time_Unix t_def)
qed




text \<open>The formatter at the epoch second of the specification, at the first second of the year
  10000, at the last second before the year 0, and at the least \<^verbatim>\<open>int64\<close>.\<close>

lemma Format_UTC_example: "Format_UTC 1700000000 = ''2023-11-14T22:13:20''"
proof -
  have t: "Time_abs (time_Unix 1700000000) = 9223372030415321600" by (simp add: Time_abs_time_Unix)
  have a: "absDate 9223372030415321600 = (2023, 317)"
    unfolding absDate_def cut_def cut_capped_def absoluteZeroYear_def Let_def by simp
  have m: "month_day 2023 317 = (11, 14)"
    unfolding month_day_def isLeap_def daysBefore_def Let_def by simp
  have c: "absClock 9223372030415321600 = (22, 13, 20)"
    unfolding absClock_def Let_def by simp
  have i: "appendInt 2023 4 = ''2023''" "appendInt (int 11) 2 = ''11''" "appendInt (int 14) 2 = ''14''"
    "appendInt (int 22) 2 = ''22''" "appendInt (int 13) 2 = ''13''"
    "appendInt (int 20) 2 = ''20''"
    by (simp_all add: appendInt_def digits.simps digit_def Let_def)
  show ?thesis
    unfolding Format_UTC_def t Let_def a m c prod.case i by simp
qed

lemma Format_UTC_year_10000: "Format_UTC 253402300800 = ''10000-01-01T00:00:00''"
proof -
  have t: "Time_abs (time_Unix 253402300800) = 9223372282117622400" by (simp add: Time_abs_time_Unix)
  have a: "absDate 9223372282117622400 = (10000, 0)"
    unfolding absDate_def cut_def cut_capped_def absoluteZeroYear_def Let_def by simp
  have m: "month_day 10000 0 = (1, 1)"
    unfolding month_day_def isLeap_def daysBefore_def Let_def by simp
  have c: "absClock 9223372282117622400 = (0, 0, 0)"
    unfolding absClock_def Let_def by simp
  have i: "appendInt 10000 4 = ''10000''" "appendInt (int 1) 2 = ''01''"
    "appendInt (int 0) 2 = ''00''"
    by (simp_all add: appendInt_def digits.simps digit_def Let_def)
  show ?thesis
    unfolding Format_UTC_def t Let_def a m c prod.case i by simp
qed

lemma Format_UTC_year_before_0: "Format_UTC (- 62167219201) = ''-0001-12-31T23:59:59''"
proof -
  have t: "Time_abs (time_Unix (- 62167219201)) = 9223371966548102399" by (simp add: Time_abs_time_Unix)
  have a: "absDate 9223371966548102399 = (- 1, 364)"
    unfolding absDate_def cut_def cut_capped_def absoluteZeroYear_def Let_def by simp
  have m: "month_day (- 1) 364 = (12, 31)"
    unfolding month_day_def isLeap_def daysBefore_def Let_def by simp
  have c: "absClock 9223371966548102399 = (23, 59, 59)"
    unfolding absClock_def Let_def by simp
  have i: "appendInt (- 1) 4 = ''-0001''" "appendInt (int 12) 2 = ''12''"
    "appendInt (int 31) 2 = ''31''" "appendInt (int 23) 2 = ''23''" "appendInt (int 59) 2 = ''59''"
    by (simp_all add: appendInt_def digits.simps digit_def Let_def numeral_3_eq_3)
  show ?thesis
    unfolding Format_UTC_def t Let_def a m c prod.case i by simp
qed

lemma Format_UTC_least: "Format_UTC (- 9223372036854775808) = ''292277026596-12-04T15:30:08''"
proof -
  have t: "Time_abs (time_Unix (- 9223372036854775808)) = 18446744065570097408" by (simp add: Time_abs_time_Unix)
  have a: "absDate 18446744065570097408 = (292277026596, 338)"
    unfolding absDate_def cut_def cut_capped_def absoluteZeroYear_def Let_def by simp
  have m: "month_day 292277026596 338 = (12, 4)"
    unfolding month_day_def isLeap_def daysBefore_def Let_def by simp
  have c: "absClock 18446744065570097408 = (15, 30, 8)"
    unfolding absClock_def Let_def by simp
  have i: "appendInt 292277026596 4 = ''292277026596''" "appendInt (int 12) 2 = ''12''"
    "appendInt (int 4) 2 = ''04''" "appendInt (int 15) 2 = ''15''" "appendInt (int 30) 2 = ''30''"
    "appendInt (int 8) 2 = ''08''"
    by (simp_all add: appendInt_def digits.simps digit_def Let_def)
  show ?thesis
    unfolding Format_UTC_def t Let_def a m c prod.case i by simp
qed

text \<open>The cycles: the day number is the sum of the cycles cut off and of the day of the year,
  and that sum is the number of days before the year found.\<close>

lemma cut_capped_36524:
  assumes "d < 146097" and "cut_capped 36524 d = (n, r)"
  shows "n \<le> 3 \<and> d = 36524 * n + r \<and> r \<le> 36524 \<and> (n < 3 \<longrightarrow> r < 36524)"
proof -
  define q where "q = d div 36524"
  define m where "m = d mod 36524"
  from assms(1) have q: "q \<le> 4" by (simp add: q_def)
  have d: "d = 36524 * q + m" by (simp add: q_def m_def)
  have m: "m < 36524" by (simp add: m_def)
  from assms(2) have n: "n = q - q div 4" and r: "r = d - 36524 * n"
    by (auto simp: cut_capped_def Let_def q_def)
  from q have "q = 0 \<or> q = 1 \<or> q = 2 \<or> q = 3 \<or> q = 4" by arith
  then show ?thesis using n d m r assms(1) by (elim disjE) simp_all
qed

lemma cut_1461:
  assumes "d \<le> 36524" and "cut 1461 d = (n, r)"
  shows "n \<le> 24 \<and> d = 1461 * n + r \<and> r < 1461"
proof -
  from assms(2) have n: "n = d div 1461" and r: "r = d - 1461 * (d div 1461)"
    by (auto simp: cut_def Let_def)
  from r have r': "r = d mod 1461" by (simp add: minus_mult_div_eq_mod)
  from assms(1) have "d div 1461 \<le> 36524 div 1461" by (rule div_le_mono)
  then have "n \<le> 24" by (simp add: n)
  moreover have "d = 1461 * n + r" by (simp add: n r')
  moreover have "r < 1461" by (simp add: r')
  ultimately show ?thesis by simp
qed

lemma cut_capped_365:
  assumes "d < 1461" and "cut_capped 365 d = (n, r)"
  shows "n \<le> 3 \<and> d = 365 * n + r \<and> r \<le> 365 \<and> (n < 3 \<longrightarrow> r < 365)"
proof -
  define q where "q = d div 365"
  define m where "m = d mod 365"
  from assms(1) have q: "q \<le> 4" by (simp add: q_def)
  have d: "d = 365 * q + m" by (simp add: q_def m_def)
  have m: "m < 365" by (simp add: m_def)
  from assms(2) have n: "n = q - q div 4" and r: "r = d - 365 * n"
    by (auto simp: cut_capped_def Let_def q_def)
  from q have "q = 0 \<or> q = 1 \<or> q = 2 \<or> q = 3 \<or> q = 4" by arith
  then show ?thesis using n d m r assms(1) by (elim disjE) simp_all
qed

lemma cut_146097:
  assumes "cut 146097 d = (n, r)"
  shows "d = 146097 * n + r \<and> r < 146097"
proof -
  from assms have n: "n = d div 146097" and r: "r = d - 146097 * (d div 146097)"
    by (auto simp: cut_def Let_def)
  from r have r': "r = d mod 146097" by (simp add: minus_mult_div_eq_mod)
  show ?thesis by (simp add: n r')
qed

lemma absDate_decompose:
  assumes "absDate a = (year, yday)"
  obtains n400 :: int and n100 n4 n1 :: nat where
    "int (a div 86400) - 106751991073094 + 719162 =
       146097 * n400 + int (36524 * n100 + 1461 * n4 + 365 * n1 + yday)"
    "year = 400 * n400 + int (100 * n100 + 4 * n4 + n1) + 1"
    "n100 \<le> 3" "n4 \<le> 24" "n1 \<le> 3" "yday \<le> 365"
    "36524 * n100 + 1461 * n4 + 365 * n1 + yday < 146097"
    "1461 * n4 + 365 * n1 + yday \<le> 36524" "365 * n1 + yday < 1461"
    "n100 < 3 \<longrightarrow> 1461 * n4 + 365 * n1 + yday < 36524"
    "n1 < 3 \<longrightarrow> yday < 365"
proof -
  define d where "d = a div 86400"
  obtain q d1 where c0: "cut 146097 d = (q, d1)" by (cases "cut 146097 d")
  obtain n100 d2 where c1: "cut_capped 36524 d1 = (n100, d2)" by (cases "cut_capped 36524 d1")
  obtain n4 d3 where c2: "cut 1461 d2 = (n4, d3)" by (cases "cut 1461 d2")
  obtain n1 y where c3: "cut_capped 365 d3 = (n1, y)" by (cases "cut_capped 365 d3")
  from cut_146097 [OF c0] have d1: "d1 < 146097" "d = 146097 * q + d1" by simp_all
  note f1 = cut_capped_36524 [OF d1(1) c1]
  then have "d2 \<le> 36524" by simp
  note f2 = cut_1461 [OF this c2]
  then have "d3 < 1461" by simp
  note f3 = cut_capped_365 [OF this c3]
  from assms c0 c1 c2 c3
  have yr: "year = int (400 * q + 100 * n100 + 4 * n4 + n1) + absoluteZeroYear"
    and y: "yday = y"
    by (simp_all add: absDate_def Let_def d_def)
  from f1 f2 f3 have e1: "d1 = 36524 * n100 + 1461 * n4 + 365 * n1 + y"
    and e2: "d2 = 1461 * n4 + 365 * n1 + y" and e3: "d3 = 365 * n1 + y" by simp_all
  define n400 where "n400 = int q - 730692556"
  show ?thesis
  proof (rule that [of n400 n100 n4 n1])
    show "int (a div 86400) - 106751991073094 + 719162 =
        146097 * n400 + int (36524 * n100 + 1461 * n4 + 365 * n1 + yday)"
      using d1(2) e1 y by (simp add: d_def [symmetric] n400_def)
    show "year = 400 * n400 + int (100 * n100 + 4 * n4 + n1) + 1"
      using yr by (simp add: n400_def absoluteZeroYear_def)
    show "n100 \<le> 3" "n4 \<le> 24" "n1 \<le> 3" "yday \<le> 365" using f1 f2 f3 y by simp_all
    show "36524 * n100 + 1461 * n4 + 365 * n1 + yday < 146097" using d1(1) e1 y by simp
    show "1461 * n4 + 365 * n1 + yday \<le> 36524" using f1 e2 y by simp
    show "365 * n1 + yday < 1461" using f2 e3 y by simp
    show "n100 < 3 \<longrightarrow> 1461 * n4 + 365 * n1 + yday < 36524" using f1 e2 y by simp
    show "n1 < 3 \<longrightarrow> yday < 365" using f3 y by simp
  qed
qed

lemma days_before_year_cycles:
  assumes y: "year = 400 * n400 + int (100 * n100 + 4 * n4 + n1) + 1"
    and b: "n100 \<le> 3" "n4 \<le> 24" "n1 \<le> 3"
  shows "days_before_year year = 146097 * n400 + int (36524 * n100 + 1461 * n4 + 365 * n1)"
proof -
  define r where "r = int (100 * n100 + 4 * n4 + n1)"
  have y1: "year - 1 = 400 * n400 + r" using y by (simp add: r_def)
  have d4: "(year - 1) div 4 = 100 * n400 + int (25 * n100 + n4)"
  proof -
    have "year - 1 = int n1 + 4 * (100 * n400 + int (25 * n100 + n4))"
      using y1 by (simp add: r_def)
    then have "(year - 1) div 4 = int n1 div 4 + (100 * n400 + int (25 * n100 + n4))"
      by (simp only: div_mult_self2 [of 4 "int n1"])
    with b(3) show ?thesis by simp
  qed
  have d100: "(year - 1) div 100 = 4 * n400 + int n100"
  proof -
    have "year - 1 = int (4 * n4 + n1) + 100 * (4 * n400 + int n100)"
      using y1 by (simp add: r_def)
    then have "(year - 1) div 100 = int (4 * n4 + n1) div 100 + (4 * n400 + int n100)"
      by (simp only: div_mult_self2 [of 100 "int (4 * n4 + n1)"])
    moreover from b have "4 * n4 + n1 < 100" by simp
    ultimately show ?thesis by (simp add: div_pos_pos_trivial)
  qed
  have d400: "(year - 1) div 400 = n400"
  proof -
    have "year - 1 = r + 400 * n400" using y1 by simp
    then have "(year - 1) div 400 = r div 400 + n400"
      by (simp only: div_mult_self2 [of 400 r])
    moreover from b have "r < 400" "0 \<le> r" by (simp_all add: r_def)
    ultimately show ?thesis by (simp add: div_pos_pos_trivial)
  qed
  have "days_before_year year =
      365 * (year - 1) + (100 * n400 + int (25 * n100 + n4)) - (4 * n400 + int n100) + n400"
    unfolding days_before_year_def d4 d100 d400 by (rule refl)
  then show ?thesis using y1 by (simp add: r_def)
qed

text \<open>The month and the day of the month are those of the day of the year.\<close>

lemma leap_year_isLeap: "leap_year y = isLeap y"
  by (simp add: leap_year_def isLeap_def dvd_eq_mod_eq_0)

lemma days_before_month_table:
  "days_before_month y (Suc 0) = 0"
  "days_before_month y 1 = 0"
  "days_before_month y 2 = 31"
  "days_before_month y 3 = (if leap_year y then 60 else 59)"
  "days_before_month y 4 = (if leap_year y then 91 else 90)"
  "days_before_month y 5 = (if leap_year y then 121 else 120)"
  "days_before_month y 6 = (if leap_year y then 152 else 151)"
  "days_before_month y 7 = (if leap_year y then 182 else 181)"
  "days_before_month y 8 = (if leap_year y then 213 else 212)"
  "days_before_month y 9 = (if leap_year y then 244 else 243)"
  "days_before_month y 10 = (if leap_year y then 274 else 273)"
  "days_before_month y 11 = (if leap_year y then 305 else 304)"
  "days_before_month y 12 = (if leap_year y then 335 else 334)"
  by (simp_all add: days_before_month.simps days_in_month_def)

lemma month_of_day_exact:
  assumes "day \<le> 364"
    and "(if day \<ge> daysBefore ! (day div 31 + 1)
          then (day div 31 + 2, day - daysBefore ! (day div 31 + 1) + 1)
          else (day div 31 + 1, day - daysBefore ! (day div 31) + 1)) = (m, d)"
  shows "1 \<le> m \<and> m \<le> 12 \<and> 1 \<le> d \<and> daysBefore ! (m - 1) + d = day + 1 \<and>
         daysBefore ! (m - 1) + d \<le> daysBefore ! m"
proof -
  define k where "k = day div 31"
  have dk: "31 * k \<le> day" "day < 31 * k + 31" by (simp_all add: k_def)
  with assms(1) have "k \<le> 11" by arith
  then have "k = 0 \<or> k = 1 \<or> k = 2 \<or> k = 3 \<or> k = 4 \<or> k = 5 \<or> k = 6 \<or> k = 7 \<or> k = 8 \<or>
      k = 9 \<or> k = 10 \<or> k = 11" by arith
  then show ?thesis
    using assms dk unfolding k_def [symmetric]
    by (elim disjE) (auto simp: daysBefore_def split: if_splits)
qed

lemma month_cases:
  assumes "1 \<le> m" "m \<le> 12"
  shows "m = 1 \<or> m = 2 \<or> m = 3 \<or> m = 4 \<or> m = 5 \<or> m = 6 \<or> m = 7 \<or> m = 8 \<or> m = 9 \<or>
         m = 10 \<or> m = 11 \<or> m = (12::nat)"
  using assms by arith

lemma month_day_exact:
  assumes "yday \<le> (if isLeap year then 365 else 364)" and "month_day year yday = (m, d)"
  shows "1 \<le> m \<and> m \<le> 12 \<and> 1 \<le> d \<and> d \<le> days_in_month year m \<and>
         days_before_month year m + d = yday + 1"
proof -
  consider "isLeap year" "yday = 59" | "isLeap year" "59 < yday" | "\<not> isLeap year"
    | "isLeap year" "yday < 59"
    by arith
  then show ?thesis
  proof cases
    case 1
    with assms(2) have "m = 2" "d = 29" by (simp_all add: month_day_def)
    with 1 show ?thesis
      by (simp add: days_before_month_table days_in_month_def leap_year_isLeap)
  next
    case 2
    from 2 assms(1) have "yday - 1 \<le> 364" by simp
    moreover from 2 assms(2)
    have "(if yday - 1 \<ge> daysBefore ! ((yday - 1) div 31 + 1)
          then ((yday - 1) div 31 + 2, yday - 1 - daysBefore ! ((yday - 1) div 31 + 1) + 1)
          else ((yday - 1) div 31 + 1, yday - 1 - daysBefore ! ((yday - 1) div 31) + 1)) = (m, d)"
      by (auto simp: month_day_def Let_def split: if_splits)
    ultimately have f: "1 \<le> m \<and> m \<le> 12 \<and> 1 \<le> d \<and> daysBefore ! (m - 1) + d = yday - 1 + 1 \<and>
         daysBefore ! (m - 1) + d \<le> daysBefore ! m"
      by (rule month_of_day_exact)
    then have "1 \<le> m" "m \<le> 12" by blast+
    then have "m = 1 \<or> m = 2 \<or> m = 3 \<or> m = 4 \<or> m = 5 \<or> m = 6 \<or> m = 7 \<or> m = 8 \<or> m = 9 \<or>
         m = 10 \<or> m = 11 \<or> m = 12" by (rule month_cases)
    then show ?thesis
      using f 2
      by (elim disjE)
        (simp_all add: daysBefore_def days_before_month_table days_in_month_def leap_year_isLeap)
  next
    case 3
    from 3 assms(1) have "yday \<le> 364" by simp
    moreover from 3 assms(2)
    have "(if yday \<ge> daysBefore ! (yday div 31 + 1)
          then (yday div 31 + 2, yday - daysBefore ! (yday div 31 + 1) + 1)
          else (yday div 31 + 1, yday - daysBefore ! (yday div 31) + 1)) = (m, d)"
      by (auto simp: month_day_def Let_def)
    ultimately have f: "1 \<le> m \<and> m \<le> 12 \<and> 1 \<le> d \<and> daysBefore ! (m - 1) + d = yday + 1 \<and>
         daysBefore ! (m - 1) + d \<le> daysBefore ! m"
      by (rule month_of_day_exact)
    then have "1 \<le> m" "m \<le> 12" by blast+
    then have "m = 1 \<or> m = 2 \<or> m = 3 \<or> m = 4 \<or> m = 5 \<or> m = 6 \<or> m = 7 \<or> m = 8 \<or> m = 9 \<or>
         m = 10 \<or> m = 11 \<or> m = 12" by (rule month_cases)
    then show ?thesis
      using f 3
      by (elim disjE)
        (simp_all add: daysBefore_def days_before_month_table days_in_month_def leap_year_isLeap)
  next
    case 4
    from 4 have "yday \<le> 364" by simp
    moreover from 4 assms(2)
    have "(if yday \<ge> daysBefore ! (yday div 31 + 1)
          then (yday div 31 + 2, yday - daysBefore ! (yday div 31 + 1) + 1)
          else (yday div 31 + 1, yday - daysBefore ! (yday div 31) + 1)) = (m, d)"
      by (auto simp: month_day_def Let_def)
    ultimately have f: "1 \<le> m \<and> m \<le> 12 \<and> 1 \<le> d \<and> daysBefore ! (m - 1) + d = yday + 1 \<and>
         daysBefore ! (m - 1) + d \<le> daysBefore ! m"
      by (rule month_of_day_exact)
    then have "1 \<le> m" "m \<le> 12" by blast+
    then have "m = 1 \<or> m = 2 \<or> m = 3 \<or> m = 4 \<or> m = 5 \<or> m = 6 \<or> m = 7 \<or> m = 8 \<or> m = 9 \<or>
         m = 10 \<or> m = 11 \<or> m = 12" by (rule month_cases)
    then show ?thesis
      using f 4
      by (elim disjE)
        (simp_all add: daysBefore_def days_before_month_table days_in_month_def leap_year_isLeap)
  qed
qed

text \<open>The years 0 to 9999, and the length of the year.\<close>

lemma absDate_year_range:
  assumes a: "absDate ab = (year, yday)" and days: "days = int (ab div 86400) - 106751991073094"
    and lo: "- 719528 \<le> days" and hi: "days \<le> 2932896"
  shows "0 \<le> year \<and> year \<le> 9999"
proof -
  from a obtain n400 :: int and n100 n4 n1 :: nat where
    d: "days + 719162 = 146097 * n400 + int (36524 * n100 + 1461 * n4 + 365 * n1 + yday)"
    and y: "year = 400 * n400 + int (100 * n100 + 4 * n4 + n1) + 1"
    and b: "n100 \<le> 3" "n4 \<le> 24" "n1 \<le> 3" "yday \<le> 365"
    and c: "36524 * n100 + 1461 * n4 + 365 * n1 + yday < 146097"
      "1461 * n4 + 365 * n1 + yday \<le> 36524" "365 * n1 + yday < 1461"
      "n100 < 3 \<longrightarrow> 1461 * n4 + 365 * n1 + yday < 36524"
      "n1 < 3 \<longrightarrow> yday < 365"
    unfolding days by (rule absDate_decompose)
  from d lo hi c(1) have n400: "- 1 \<le> n400" "n400 \<le> 24" by arith+
  have up: "year \<le> 9999"
  proof (cases "n400 = 24")
    case False
    with n400 have "n400 \<le> 23" by simp
    with y b show ?thesis by simp
  next
    case True
    with d hi have s: "36524 * n100 + 1461 * n4 + 365 * n1 + yday \<le> 145730" by simp
    have "\<not> (n100 = 3 \<and> n4 = 24 \<and> n1 = 3)" using s by auto
    with b have "100 * n100 + 4 * n4 + n1 \<le> 398" by arith
    with y True show ?thesis by simp
  qed
  have down: "0 \<le> year"
  proof (cases "n400 = - 1")
    case False
    with n400 have "0 \<le> n400" by simp
    with y show ?thesis by simp
  next
    case True
    with d lo have s: "145731 \<le> 36524 * n100 + 1461 * n4 + 365 * n1 + yday" by simp
    have 1: "n100 = 3" using s b(1) c(4) by arith
    have 2: "n4 = 24" using s 1 b(2) c(3) by arith
    have 3: "n1 = 3" using s 1 2 b(3) c(5) by arith
    from y True 1 2 3 show ?thesis by simp
  qed
  from up down show ?thesis by simp
qed

lemma absDate_yday_leap:
  assumes a: "absDate ab = (year, yday)"
  shows "yday \<le> (if isLeap year then 365 else 364)"
proof (cases "yday = 365")
  case False
  from a obtain n400 :: int and n100 n4 n1 :: nat where "yday \<le> 365"
    by (rule absDate_decompose)
  with False show ?thesis by simp
next
  case True
  from a obtain n400 :: int and n100 n4 n1 :: nat where
    y: "year = 400 * n400 + int (100 * n100 + 4 * n4 + n1) + 1"
    and b: "n100 \<le> 3" "n4 \<le> 24" "n1 \<le> 3"
    and c: "n100 < 3 \<longrightarrow> 1461 * n4 + 365 * n1 + yday < 36524"
      "n1 < 3 \<longrightarrow> yday < 365"
    by (rule absDate_decompose)
  from True c(2) b(3) have n1: "n1 = 3" by arith
  from True n1 c(1) b have n4: "n4 < 24 \<or> n100 = 3" by arith
  have yr: "year = 400 * n400 + 100 * int n100 + 4 * (int n4 + 1)" using y n1 by simp
  have "isLeap year"
  proof -
    have m4: "year mod 4 = 0" unfolding yr by presburger
    from n4 have "year mod 100 \<noteq> 0 \<or> year mod 400 = 0"
    proof
      assume "n4 < 24"
      then have "0 < 4 * (int n4 + 1)" "4 * (int n4 + 1) < 100" by simp_all
      then have "year mod 100 \<noteq> 0" unfolding yr by presburger
      then show ?thesis by simp
    next
      assume n100: "n100 = 3"
      show ?thesis
      proof (cases "n4 = 24")
        case True
        with n100 have "year = 400 * (n400 + 1)" unfolding yr by simp
        then show ?thesis by simp
      next
        case False
        with b(2) have "n4 < 24" by simp
        then have "0 < 4 * (int n4 + 1)" "4 * (int n4 + 1) < 100" by simp_all
        then have "year mod 100 \<noteq> 0" unfolding yr by presburger
        then show ?thesis by simp
      qed
    qed
    with m4 show ?thesis by (simp add: isLeap_def)
  qed
  with True show ?thesis by simp
qed



text \<open>The digits written, and the clock.\<close>

lemma digit_0: "digit 0 = CHR ''0''"
  by (simp add: digit_def)

lemma digits_small: "n < 10 \<Longrightarrow> digits n = [digit n]"
  by (simp add: digits.simps)

lemma digits_step: "10 \<le> n \<Longrightarrow> digits n = digits (n div 10) @ [digit (n mod 10)]"
  by (subst digits.simps) simp

lemma appendInt_2:
  assumes "n < 100"
  shows "appendInt (int n) 2 = [digit (n div 10), digit (n mod 10)]"
proof (cases "n < 10")
  case True
  then show ?thesis by (simp add: appendInt_def digits_small digit_0)
next
  case False
  with assms have "n div 10 < 10" by simp
  with False show ?thesis by (simp add: appendInt_def digits_small digits_step)
qed

lemma appendInt_4:
  assumes "n < 10000"
  shows "appendInt (int n) 4 =
    [digit (n div 1000), digit (n div 100 mod 10), digit (n div 10 mod 10), digit (n mod 10)]"
proof -
  consider "n < 10" | "10 \<le> n" "n < 100" | "100 \<le> n" "n < 1000" | "1000 \<le> n" by arith
  then show ?thesis
  proof cases
    case 1
    then show ?thesis
      by (simp add: appendInt_def digits_small digit_0 numeral_3_eq_3)
  next
    case 2
    then have "n div 10 < 10" by simp
    with 2 show ?thesis
      by (simp add: appendInt_def digits_small digits_step digit_0 numeral_2_eq_2)
  next
    case 3
    then have a: "10 \<le> n" "10 \<le> n div 10" "n div 10 div 10 < 10" by simp_all
    have b: "n div 10 div 10 = n div 100" by (simp add: div_mult2_eq)
    from 3 a b show ?thesis
      by (simp add: appendInt_def digits_small digits_step digit_0)
  next
    case 4
    with assms have a: "10 \<le> n" "10 \<le> n div 10" "10 \<le> n div 10 div 10"
      "n div 10 div 10 div 10 < 10" by simp_all
    have b: "n div 10 div 10 = n div 100" "n div 10 div 10 div 10 = n div 1000"
      by (simp_all add: div_mult2_eq)
    from 4 a b show ?thesis
      by (simp add: appendInt_def digits_small digits_step)
  qed
qed


lemma absClock_split:
  assumes "absClock a = (h, mi, s)"
  shows "h < 24 \<and> mi < 60 \<and> s < 60 \<and> a mod 86400 = 3600 * h + 60 * mi + s"
proof -
  define rem where "rem = a mod 86400"
  have r: "rem < 86400" by (simp add: rem_def)
  have m1: "rem - rem div 3600 * 3600 = rem mod 3600"
    by (simp add: minus_div_mult_eq_mod)
  have m2: "rem mod 3600 - rem mod 3600 div 60 * 60 = rem mod 3600 mod 60"
    by (simp add: minus_div_mult_eq_mod)
  from assms have h: "h = rem div 3600" and mi: "mi = rem mod 3600 div 60"
    and s: "s = rem mod 3600 mod 60"
    unfolding absClock_def Let_def rem_def [symmetric] m1 m2 by simp_all
  from r have "h < 24" "mi < 60" "s < 60"
    by (simp_all add: h mi s less_mult_imp_div_less)
  moreover have "rem = 3600 * h + 60 * mi + s"
  proof -
    have "rem = 3600 * (rem div 3600) + rem mod 3600" by simp
    also have "rem mod 3600 = 60 * (rem mod 3600 div 60) + rem mod 3600 mod 60" by simp
    finally show ?thesis by (simp add: h mi s)
  qed
  ultimately show ?thesis by (simp add: rem_def)
qed

text \<open>The formatter against the calendar, for the years 0 to 9999.\<close>

lemma Format_UTC_civil:
  assumes lo: "- 62167219200 \<le> sint sec" and hi: "sint sec < 253402300800"
  shows "\<exists>y mo d h mi s. y < 10000 \<and> 1 \<le> mo \<and> mo \<le> 12 \<and> 1 \<le> d \<and>
     d \<le> days_in_month (int y) mo \<and> h < 24 \<and> mi < 60 \<and> s < 60 \<and>
     epoch_second (int y) mo d h mi s = sint sec \<and>
     Format_UTC sec =
       [digit (y div 1000), digit (y div 100 mod 10), digit (y div 10 mod 10), digit (y mod 10),
        CHR ''-'', digit (mo div 10), digit (mo mod 10),
        CHR ''-'', digit (d div 10), digit (d mod 10),
        CHR ''T'', digit (h div 10), digit (h mod 10),
        CHR '':'', digit (mi div 10), digit (mi mod 10),
        CHR '':'', digit (s div 10), digit (s mod 10)]"
proof -
  define t where "t = sint sec"
  define a where "a = Time_abs (time_Unix sec)"
  from lo have "- 9223372028715321600 \<le> sint sec" by simp
  then have a: "a = nat (t + 9223372028715321600)"
    unfolding a_def t_def by (rule Time_abs_no_wrap)
  from lo have pos: "0 \<le> t + 9223372028715321600" by (simp add: t_def)
  have split: "t + 9223372028715321600 = t + 86400 * 106751991073094" by simp
  have adiv: "int (a div 86400) = t div 86400 + 106751991073094"
  proof -
    have "int (a div 86400) = (t + 9223372028715321600) div 86400"
      using pos by (simp add: a zdiv_int)
    also have "\<dots> = t div 86400 + 106751991073094"
      unfolding split by (simp only: div_mult_self2 [of 86400 t]) 
    finally show ?thesis .
  qed
  have amod: "int (a mod 86400) = t mod 86400"
  proof -
    have "int (a mod 86400) = (t + 9223372028715321600) mod 86400"
      using pos by (simp add: a zmod_int)
    also have "\<dots> = t mod 86400"
      unfolding split by (simp only: mod_mult_self2)
    finally show ?thesis .
  qed
  define days where "days = int (a div 86400) - 106751991073094"
  have days: "days = t div 86400" by (simp add: days_def adiv)
  obtain year yday where ad: "absDate a = (year, yday)" by (cases "absDate a")
  obtain mo d where m: "month_day year yday = (mo, d)" by (cases "month_day year yday")
  obtain h mi s where c: "absClock a = (h, mi, s)" by (cases "absClock a") auto
  from lo have "(- 62167219200) div 86400 \<le> t div 86400" unfolding t_def by (rule zdiv_mono1) simp
  then have dlo: "- 719528 \<le> days" by (simp add: days)
  from hi have "t \<le> 253402300799" by (simp add: t_def)
  then have "t div 86400 \<le> 253402300799 div 86400" by (rule zdiv_mono1) simp
  then have dhi: "days \<le> 2932896" by (simp add: days)
  from absDate_year_range [OF ad days_def dlo dhi] have yr: "0 \<le> year" "year \<le> 9999" by simp_all
  define y where "y = nat year"
  from yr have y: "year = int y" "y < 10000" by (simp_all add: y_def)
  from month_day_exact [OF absDate_yday_leap [OF ad] m]
  have md: "1 \<le> mo" "mo \<le> 12" "1 \<le> d" "d \<le> days_in_month year mo"
    "days_before_month year mo + d = yday + 1" by simp_all
  from md(2,4) have d31: "d \<le> 31" by (auto simp: days_in_month_def split: if_splits)
  from absClock_split [OF c]
  have hms: "h < 24" "mi < 60" "s < 60" "a mod 86400 = 3600 * h + 60 * mi + s" by simp_all
  from ad obtain n400 :: int and n100 n4 n1 :: nat where
    dd: "int (a div 86400) - 106751991073094 + 719162 =
       146097 * n400 + int (36524 * n100 + 1461 * n4 + 365 * n1 + yday)"
    and yy: "year = 400 * n400 + int (100 * n100 + 4 * n4 + n1) + 1"
    and b: "n100 \<le> 3" "n4 \<le> 24" "n1 \<le> 3"
    by (rule absDate_decompose)
  from days_before_year_cycles [OF yy b] dd
  have dby: "days + 719162 = days_before_year year + int yday" by (simp add: days_def)
  have e: "epoch_second year mo d h mi s = t"
  proof -
    from md(5) have "int (days_before_month year mo) + int d - 1 = int yday" by simp
    then have "days_before_year year - days_before_year 1970 + int (days_before_month year mo) + int d - 1
        = days" using dby by (simp add: days_before_year_def)
    then have "epoch_second year mo d h mi s = 86400 * days + int (a mod 86400)"
      by (simp add: epoch_second_def hms(4))
    also have "\<dots> = t" by (simp add: days amod)
    finally show ?thesis .
  qed
  from ad m c y(1) have a': "absDate a = (int y, yday)" and m': "month_day (int y) yday = (mo, d)"
    by simp_all
  have f: "Format_UTC sec =
      appendInt (int y) 4 @ ''-'' @ appendInt (int mo) 2 @ ''-'' @ appendInt (int d) 2 @ ''T'' @
      appendInt (int h) 2 @ '':'' @ appendInt (int mi) 2 @ '':'' @ appendInt (int s) 2"
    unfolding Format_UTC_def Let_def a_def [symmetric] a' prod.case m' c by (rule refl)
  have "d < 100" "mo < 100" "h < 100" "mi < 100" "s < 100" using md d31 hms by simp_all
  then have "Format_UTC sec =
       [digit (y div 1000), digit (y div 100 mod 10), digit (y div 10 mod 10), digit (y mod 10),
        CHR ''-'', digit (mo div 10), digit (mo mod 10),
        CHR ''-'', digit (d div 10), digit (d mod 10),
        CHR ''T'', digit (h div 10), digit (h mod 10),
        CHR '':'', digit (mi div 10), digit (mi mod 10),
        CHR '':'', digit (s div 10), digit (s mod 10)]"
    unfolding f using y(2) by (simp add: appendInt_2 appendInt_4)
  with y md(1-4) hms(1-3) e show ?thesis unfolding t_def by blast
qed

text \<open>The days before a year grow by the length of the year, and the calendar counts its
  seconds from 1970-01-01T00:00:00.\<close>

lemma div_step:
  fixes y n :: int
  assumes n: "0 < n"
  shows "y div n - (y - 1) div n = (if n dvd y then 1 else 0)"
proof (cases "n dvd y")
  case True
  then obtain q where y: "y = n * q" ..
  from n have nz: "n \<noteq> 0" by simp
  have "y - 1 = (n - 1) + n * (q - 1)" by (simp add: y algebra_simps)
  then have "(y - 1) div n = (q - 1) + (n - 1) div n" by (simp only: div_mult_self2 [OF nz])
  moreover from n have "(n - 1) div n = 0" by (simp add: div_pos_pos_trivial)
  moreover from nz have "y div n = q" by (simp add: y)
  ultimately show ?thesis using True by simp
next
  case False
  define r where "r = y mod n"
  from n have nz: "n \<noteq> 0" by simp
  from n have "0 \<le> r" "r < n" by (simp_all add: r_def)
  moreover from False have "r \<noteq> 0" by (simp add: r_def dvd_eq_mod_eq_0)
  ultimately have r: "0 \<le> r - 1" "r - 1 < n" by simp_all
  have "y = r + n * (y div n)" by (simp add: r_def)
  then have "y - 1 = (r - 1) + n * (y div n)" by simp
  then have "(y - 1) div n = y div n + (r - 1) div n" by (simp only: div_mult_self2 [OF nz])
  moreover from r have "(r - 1) div n = 0" by (simp add: div_pos_pos_trivial)
  ultimately show ?thesis using False by simp
qed

lemma dvd_400_100: "400 dvd (y::int) \<Longrightarrow> 100 dvd y"
  by (erule dvd_trans [rotated], simp)

lemma dvd_100_4: "100 dvd (y::int) \<Longrightarrow> 4 dvd y"
  by (erule dvd_trans [rotated], simp)

lemma days_before_year_step:
  "days_before_year (y + 1) = days_before_year y + (if leap_year y then 366 else 365)"
proof -
  have s4: "y div 4 - (y - 1) div 4 = (if 4 dvd y then 1 else 0)" by (rule div_step) simp
  have s100: "y div 100 - (y - 1) div 100 = (if 100 dvd y then 1 else 0)" by (rule div_step) simp
  have s400: "y div 400 - (y - 1) div 400 = (if 400 dvd y then 1 else 0)" by (rule div_step) simp
  have "days_before_year (y + 1) - days_before_year y =
      365 + (y div 4 - (y - 1) div 4) - (y div 100 - (y - 1) div 100) + (y div 400 - (y - 1) div 400)"
    by (simp add: days_before_year_def)
  also have "\<dots> = 365 + (if 4 dvd y then 1 else 0) - (if 100 dvd y then 1 else 0) +
      (if 400 dvd y then 1 else 0)"
    by (simp only: s4 s100 s400)
  also have "\<dots> = (if leap_year y then 366 else 365)"
  proof (cases "400 dvd y")
    case True
    then have "100 dvd y" by (rule dvd_400_100)
    moreover from this have "4 dvd y" by (rule dvd_100_4)
    ultimately show ?thesis using True by (simp add: leap_year_def)
  next
    case False
    show ?thesis
    proof (cases "100 dvd y")
      case True
      then have "4 dvd y" by (rule dvd_100_4)
      with True False show ?thesis by (simp add: leap_year_def)
    next
      case n100: False
      with False show ?thesis by (simp add: leap_year_def)
    qed
  qed
  finally show ?thesis by simp
qed

lemma epoch_second_1970: "epoch_second 1970 1 1 0 0 0 = 0"
  by (simp add: epoch_second_def days_before_month.simps)

lemma epoch_second_example: "epoch_second 2023 11 14 22 13 20 = 1700000000"
  by (simp add: epoch_second_def days_before_year_def days_before_month_table leap_year_def)

text \<open>
  C8, as stated, at concrete inputs: the chunk list is not empty and its last chunk ends at
  the epoch second 253402300800, the first second of the year 10000.
  \<^verbatim>\<open>LatestPITRChunk\<close> returns a text of 20 characters with a year of five digits, which is
  not of the form \<^verbatim>\<open>YYYY-MM-DDTHH:MM:SS\<close>. One second before the year 0 the year is
  written with a sign, and at the least \<^verbatim>\<open>int64\<close> the sum of \<^verbatim>\<open>abs\<close> wraps around, so the
  text is not the date of that second.
\<close>

theorem LatestPITRChunk_year_10000:
  "LatestPITRChunk
     (\<lparr>PITRChunks_Chunks = [\<lparr>Range_Start = 253402214400, Range_End = 253402300800\<rparr>],
      PITR_Conf = True, PITR_Run = True, PITR_Error = [],
      Status_Running = \<lparr>OpID = [], Running_Status = [], StartTS = 0, Running_Name = [],
        Running_Type = []\<rparr>\<rparr>, None) = Returns (''10000-01-01T00:00:00'', None) \<and>
   length ''10000-01-01T00:00:00'' = 20 \<and>
   Format_UTC (- 62167219201) = ''-0001-12-31T23:59:59'' \<and>
   Format_UTC (- 9223372036854775808) = ''292277026596-12-04T15:30:08''"
  by (simp add: LatestPITRChunk_def Format_UTC_year_10000 Format_UTC_year_before_0
      Format_UTC_least)

text \<open>
  C8, amended: when the status was fetched and its chunk list is not empty,
  \<^verbatim>\<open>LatestPITRChunk\<close> returns, with a nil error, the end of the last chunk formatted in UTC;
  on the empty list it panics, and an error of the fetch is returned with the empty text.
  For every end from the first second of the year 0 to the last second of the year 9999
  the text is exactly \<^verbatim>\<open>YYYY-MM-DDTHH:MM:SS\<close>, with nothing after the seconds: the four
  digits of the year, the two of the month, of the day, of the hour, of the minute and of
  the second of the Gregorian date and time whose epoch second is that end. The epoch
  second 1700000000 gives \<^verbatim>\<open>2023-11-14T22:13:20\<close>.
\<close>

theorem LatestPITRChunk_formats_last_end:
  "(PITRChunks_Chunks st \<noteq> [] \<longrightarrow>
      LatestPITRChunk (st, None) =
        Returns (Format_UTC (Range_End (last (PITRChunks_Chunks st))), None)) \<and>
   (PITRChunks_Chunks st = [] \<longrightarrow> LatestPITRChunk (st, None) = Panics) \<and>
   LatestPITRChunk (st, Some e) = Returns ([], Some e) \<and>
   (- 62167219200 \<le> sint sec \<and> sint sec < 253402300800 \<longrightarrow>
      (\<exists>y mo d h mi s. y < 10000 \<and> 1 \<le> mo \<and> mo \<le> 12 \<and> 1 \<le> d \<and>
         d \<le> days_in_month (int y) mo \<and> h < 24 \<and> mi < 60 \<and> s < 60 \<and>
         epoch_second (int y) mo d h mi s = sint sec \<and>
         Format_UTC sec =
           [digit (y div 1000), digit (y div 100 mod 10), digit (y div 10 mod 10), digit (y mod 10),
            CHR ''-'', digit (mo div 10), digit (mo mod 10),
            CHR ''-'', digit (d div 10), digit (d mod 10),
            CHR ''T'', digit (h div 10), digit (h mod 10),
            CHR '':'', digit (mi div 10), digit (mi mod 10),
            CHR '':'', digit (s div 10), digit (s mod 10)])) \<and>
   Format_UTC 1700000000 = ''2023-11-14T22:13:20''"
proof -
  have 1: "LatestPITRChunk (st, None) =
        Returns (Format_UTC (Range_End (last (PITRChunks_Chunks st))), None)"
    if "PITRChunks_Chunks st \<noteq> []"
    using that by (simp add: LatestPITRChunk_def Let_def last_conv_nth)
  have 2: "LatestPITRChunk (st, None) = Panics" if "PITRChunks_Chunks st = []"
    using that by (simp add: LatestPITRChunk_def)
  have 3: "LatestPITRChunk (st, Some e) = Returns ([], Some e)"
    by (simp add: LatestPITRChunk_def)
  from 1 2 3 Format_UTC_civil [of sec] Format_UTC_example show ?thesis by blast
qed

theorem LatestPITRChunk_formats_last_end_witness:
  "PITRChunks_Chunks
     \<lparr>PITRChunks_Chunks = [\<lparr>Range_Start = 1699913600, Range_End = 1699990000\<rparr>,
        \<lparr>Range_Start = 1699990000, Range_End = 1700000000\<rparr>],
      PITR_Conf = True, PITR_Run = True, PITR_Error = [],
      Status_Running = \<lparr>OpID = [], Running_Status = [], StartTS = 0, Running_Name = [],
        Running_Type = []\<rparr>\<rparr> \<noteq> [] \<and>
   LatestPITRChunk
     (\<lparr>PITRChunks_Chunks = [\<lparr>Range_Start = 1699913600, Range_End = 1699990000\<rparr>,
        \<lparr>Range_Start = 1699990000, Range_End = 1700000000\<rparr>],
      PITR_Conf = True, PITR_Run = True, PITR_Error = [],
      Status_Running = \<lparr>OpID = [], Running_Status = [], StartTS = 0, Running_Name = [],
        Running_Type = []\<rparr>\<rparr>, None) = Returns (''2023-11-14T22:13:20'', None) \<and>
   - 62167219200 \<le> sint (1700000000 :: 64 word) \<and> sint (1700000000 :: 64 word) < 253402300800 \<and>
   length (Format_UTC 1700000000) = 19 \<and>
   epoch_second 2023 11 14 22 13 20 = sint (1700000000 :: 64 word)"
proof -
  let ?st = "\<lparr>PITRChunks_Chunks = [\<lparr>Range_Start = 1699913600, Range_End = 1699990000\<rparr>,
        \<lparr>Range_Start = 1699990000, Range_End = 1700000000\<rparr>],
      PITR_Conf = True, PITR_Run = True, PITR_Error = [],
      Status_Running = \<lparr>OpID = [], Running_Status = [], StartTS = 0, Running_Name = [],
        Running_Type = []\<rparr>\<rparr>"
  have h: "PITRChunks_Chunks ?st \<noteq> []" by simp
  have e: "Range_End (last (PITRChunks_Chunks ?st)) = 1700000000" by simp
  have r: "- 62167219200 \<le> sint (1700000000 :: 64 word) \<and>
      sint (1700000000 :: 64 word) < 253402300800" by simp
  have x: "epoch_second 2023 11 14 22 13 20 = sint (1700000000 :: 64 word)"
    by (simp add: epoch_second_example)
  from LatestPITRChunk_formats_last_end [of ?st _ 1700000000] h
  have 1: "LatestPITRChunk (?st, None) =
      Returns (Format_UTC (Range_End (last (PITRChunks_Chunks ?st))), None)"
    and 2: "Format_UTC 1700000000 = ''2023-11-14T22:13:20''" by blast+
  from LatestPITRChunk_formats_last_end [of ?st _ 1700000000] r
  obtain y mo d h mi s where "Format_UTC 1700000000 =
           [digit (y div 1000), digit (y div 100 mod 10), digit (y div 10 mod 10), digit (y mod 10),
            CHR ''-'', digit (mo div 10), digit (mo mod 10),
            CHR ''-'', digit (d div 10), digit (d mod 10),
            CHR ''T'', digit (h div 10), digit (h mod 10),
            CHR '':'', digit (mi div 10), digit (mi mod 10),
            CHR '':'', digit (s div 10), digit (s mod 10)]" by blast
  then have 3: "length (Format_UTC 1700000000) = 19" by simp
  from 1 e 2 have "LatestPITRChunk (?st, None) = Returns (''2023-11-14T22:13:20'', None)"
    by (simp only:)
  with h r 3 x show ?thesis by blast
qed

end
